theory Spec2Isabelle
  imports Main "HOL-Library.Word"
begin

section \<open>The OAuth PKCE client of \<^verbatim>\<open>login/pkce.js\<close>\<close>

text \<open>
  The development embeds class \<^verbatim>\<open>OAuthClientServer\<close> of \<^verbatim>\<open>src/login/pkce.js\<close>:
  the values JavaScript computes with, the string helpers the code calls, the two route
  handlers that \<^verbatim>\<open>init\<close> registers, and the methods \<^verbatim>\<open>authorize\<close>, \<^verbatim>\<open>close\<close>,
  \<^verbatim>\<open>refresh\<close>, \<^verbatim>\<open>revoke\<close> and \<^verbatim>\<open>revokeAndGetLogoutUrl\<close>.
  Strings are byte strings (the UTF-8 bytes of a well-formed JavaScript string).
\<close>

subsection \<open>Module constants\<close>

definition HOST :: string where
  "HOST = ''localhost''"

definition PORT :: nat where
  "PORT = 5555"

definition DEFAULT_SCOPE :: string where
  "DEFAULT_SCOPE = ''openid''"

definition STATE_LENGTH :: nat where
  "STATE_LENGTH = 20"

definition CODE_VERIFIER_LENGTH :: nat where
  "CODE_VERIFIER_LENGTH = 80"

definition SCOPE_SEPARATOR :: string where
  "SCOPE_SEPARATOR = '' ''"

subsection \<open>JavaScript values\<close>

text \<open>
  The values that reach the code: request cookies and query parameters (strings, or the
  arrays and nested objects that \<^verbatim>\<open>qs\<close> and JSON cookies produce), the members of a
  parsed JSON body, and the members every plain object inherits from
  \<^verbatim>\<open>Object.prototype\<close> (native functions). An object is the list of its own
  members; should a key occur twice, the first pair is the member. Parsed data holds no
  functions. A number is given by what the code and the libraries observe of it: whether
  it is truthy (neither zero nor \<^verbatim>\<open>NaN\<close>), its text (\<^verbatim>\<open>Number::toString\<close>), and its
  value as a 32-bit integer (\<^verbatim>\<open>ToInt32\<close>, which Node applies to a status code).
\<close>

datatype jsval =
    JUndefined
  | JNull
  | JBool bool
  | JNum bool string int
  | JStr string
  | JArr "jsval list"
  | JObject "(string \<times> jsval) list"
  | JNative string

text \<open>Truthiness, as \<^verbatim>\<open>if (x)\<close>, \<^verbatim>\<open>x && y\<close>, \<^verbatim>\<open>x || y\<close> and \<^verbatim>\<open>x ? a : b\<close> test it.\<close>

fun truthy :: "jsval \<Rightarrow> bool" where
  "truthy JUndefined = False"
| "truthy JNull = False"
| "truthy (JBool b) = b"
| "truthy (JNum t s i) = t"
| "truthy (JStr s) = (s \<noteq> [])"
| "truthy (JArr xs) = True"
| "truthy (JObject fs) = True"
| "truthy (JNative f) = True"

text \<open>\<^verbatim>\<open>a || b\<close>\<close>

definition js_or :: "jsval \<Rightarrow> jsval \<Rightarrow> jsval" where
  "js_or a b = (if truthy a then a else b)"

definition digit_char :: "nat \<Rightarrow> char" where
  "digit_char n = ''0123456789'' ! n"

fun show_nat :: "nat \<Rightarrow> string" where
  "show_nat n = (if n < 10 then [digit_char n] else show_nat (n div 10) @ [digit_char (n mod 10)])"

declare show_nat.simps [simp del]

fun join :: "string \<Rightarrow> string list \<Rightarrow> string" where
  "join sep [] = []"
| "join sep [x] = x"
| "join sep (x # y # ys) = x @ sep @ join sep (y # ys)"

text \<open>
  \<^verbatim>\<open>ToString\<close>, which template literals, \<^verbatim>\<open>encodeURIComponent\<close>, property keys and
  \<^verbatim>\<open>new Error(x)\<close> apply to their argument; \<open>Inl\<close> is the message of the
  \<^verbatim>\<open>TypeError\<close> it throws. An object without an own member \<^verbatim>\<open>toString\<close> inherits the
  one that returns \<^verbatim>\<open>[object Object]\<close>. An own member \<^verbatim>\<open>toString\<close> of parsed data is not
  a function and is passed over, \<^verbatim>\<open>valueOf\<close> (own and not a function, or inherited and
  returning the object) gives no primitive either, and the conversion throws. An array
  joins the texts of its elements, with nothing for \<^verbatim>\<open>null\<close> and \<^verbatim>\<open>undefined\<close>.
\<close>

fun to_string :: "jsval \<Rightarrow> string + string"
  and array_strings :: "jsval list \<Rightarrow> string + string list" where
  "to_string JUndefined = Inr ''undefined''"
| "to_string JNull = Inr ''null''"
| "to_string (JBool b) = Inr (if b then ''true'' else ''false'')"
| "to_string (JNum t s i) = Inr s"
| "to_string (JStr s) = Inr s"
| "to_string (JArr xs) =
     (case array_strings xs of Inl m \<Rightarrow> Inl m | Inr ss \<Rightarrow> Inr (join '','' ss))"
| "to_string (JObject fs) =
     (if map_of fs ''toString'' = None then Inr ''[object Object]''
      else Inl ''Cannot convert object to primitive value'')"
| "to_string (JNative f) = Inr (''function '' @ f @ ''() { [native code] }'')"
| "array_strings [] = Inr []"
| "array_strings (x # xs) =
     (case (if x = JUndefined \<or> x = JNull then Inr [] else to_string x) of
        Inl m \<Rightarrow> Inl m
      | Inr s \<Rightarrow> (case array_strings xs of Inl m \<Rightarrow> Inl m | Inr ss \<Rightarrow> Inr (s # ss)))"

text \<open>
  \<^verbatim>\<open>a === b\<close>. Arrays, objects and functions are equal only to themselves; the code
  compares a cookie value with a query value, which two different parsers built, so two
  such values are never the same reference. Two numbers are equal when their texts are,
  \<^verbatim>\<open>NaN\<close> apart.
\<close>

fun strict_eq :: "jsval \<Rightarrow> jsval \<Rightarrow> bool" where
  "strict_eq JUndefined JUndefined = True"
| "strict_eq JNull JNull = True"
| "strict_eq (JBool a) (JBool b) = (a = b)"
| "strict_eq (JNum t a i) (JNum u b j) = (a = b \<and> a \<noteq> ''NaN'')"
| "strict_eq (JStr a) (JStr b) = (a = b)"
| "strict_eq _ _ = False"

text \<open>
  \<^verbatim>\<open>new Error(x)\<close>: \<open>Inr\<close> is the message of the error made, empty when \<^verbatim>\<open>x\<close> is
  undefined; \<open>Inl\<close> is the message of the \<^verbatim>\<open>TypeError\<close> that the conversion of \<^verbatim>\<open>x\<close>
  throws instead.
\<close>

definition error_message :: "jsval \<Rightarrow> string + string" where
  "error_message x = (if x = JUndefined then Inr [] else to_string x)"

text \<open>
  Reading a member \<^verbatim>\<open>j.k\<close> of a parsed JSON value, for the three names the code reads
  (\<^verbatim>\<open>error\<close>, \<^verbatim>\<open>error_description\<close>, \<^verbatim>\<open>id_token\<close>; none is inherited by objects,
  arrays or primitives). On \<^verbatim>\<open>null\<close> the read throws a \<^verbatim>\<open>TypeError\<close>: \<open>Inl\<close> of its
  message (in the wording of Node 16 and later).
\<close>

definition get_member :: "jsval \<Rightarrow> string \<Rightarrow> string + jsval" where
  "get_member j k =
     (case j of
        JNull \<Rightarrow> Inl (''Cannot read properties of null (reading '' @ [CHR 0x27] @ k @ [CHR 0x27] @ '')'')
      | JUndefined \<Rightarrow>
          Inl (''Cannot read properties of undefined (reading '' @ [CHR 0x27] @ k @ [CHR 0x27] @ '')'')
      | JObject fs \<Rightarrow> Inr (case map_of fs k of Some v \<Rightarrow> v | None \<Rightarrow> JUndefined)
      | _ \<Rightarrow> Inr JUndefined)"

subsection \<open>Plain objects used as dictionaries\<close>

text \<open>
  \<^verbatim>\<open>this.sessionStore = {}\<close> is a plain object: its own properties are the entries the
  code stored, and a read \<^verbatim>\<open>obj[k]\<close> that finds no own property goes on to
  \<^verbatim>\<open>Object.prototype\<close>.
\<close>

definition Object_prototype :: "(string \<times> jsval) list" where
  "Object_prototype =
     [(''constructor'', JNative ''Object''),
      (''__defineGetter__'', JNative ''__defineGetter__''),
      (''__defineSetter__'', JNative ''__defineSetter__''),
      (''hasOwnProperty'', JNative ''hasOwnProperty''),
      (''__lookupGetter__'', JNative ''__lookupGetter__''),
      (''__lookupSetter__'', JNative ''__lookupSetter__''),
      (''isPrototypeOf'', JNative ''isPrototypeOf''),
      (''propertyIsEnumerable'', JNative ''propertyIsEnumerable''),
      (''toString'', JNative ''toString''),
      (''valueOf'', JNative ''valueOf''),
      (''__proto__'', JObject []),
      (''toLocaleString'', JNative ''toLocaleString'')]"

text \<open>\<^verbatim>\<open>obj[k]\<close>\<close>

definition obj_get :: "(string \<rightharpoonup> string) \<Rightarrow> string \<Rightarrow> jsval" where
  "obj_get own k =
     (case own k of
        Some v \<Rightarrow> JStr v
      | None \<Rightarrow> (case map_of Object_prototype k of Some v \<Rightarrow> v | None \<Rightarrow> JUndefined))"

text \<open>
  \<^verbatim>\<open>obj[k] = v\<close> with a string \<^verbatim>\<open>v\<close>: an own property, except for the key
  \<^verbatim>\<open>__proto__\<close>, whose inherited setter ignores a string.
\<close>

definition obj_set :: "(string \<rightharpoonup> string) \<Rightarrow> string \<Rightarrow> string \<Rightarrow> (string \<rightharpoonup> string)" where
  "obj_set own k v = (if k = ''__proto__'' then own else own(k \<mapsto> v))"

text \<open>\<^verbatim>\<open>delete obj[k]\<close> removes an own property only.\<close>

definition obj_delete :: "(string \<rightharpoonup> string) \<Rightarrow> string \<Rightarrow> (string \<rightharpoonup> string)" where
  "obj_delete own k = own(k := None)"

subsection \<open>String helpers\<close>

text \<open>\<^verbatim>\<open>s.charAt(i)\<close>: the empty string out of range.\<close>

definition charAt :: "string \<Rightarrow> nat \<Rightarrow> string" where
  "charAt s i = (if i < length s then [s ! i] else [])"

definition toUpperCase :: "string \<Rightarrow> string" where
  "toUpperCase s =
     map (\<lambda>c. if 97 \<le> (of_char c :: nat) \<and> (of_char c :: nat) \<le> 122
               then char_of ((of_char c :: nat) - 32) else c) s"

definition toLowerCase :: "string \<Rightarrow> string" where
  "toLowerCase s =
     map (\<lambda>c. if 65 \<le> (of_char c :: nat) \<and> (of_char c :: nat) \<le> 90
               then char_of ((of_char c :: nat) + 32) else c) s"

text \<open>\<^verbatim>\<open>s.replace(/c/g, r)\<close> for a pattern that is one literal character.\<close>

definition replace_all :: "char \<Rightarrow> string \<Rightarrow> string \<Rightarrow> string" where
  "replace_all c r s = concat (map (\<lambda>d. if d = c then r else [d]) s)"

text \<open>
  \<^verbatim>\<open>s.replace(/=*$/, '')\<close>: the pattern has no \<^verbatim>\<open>g\<close> flag, so the leftmost match is
  replaced. A match starting at a position needs everything from there to the end of
  the string to be \<^verbatim>\<open>=\<close>; the search moves right until that holds (at the latest at the
  end of the string, where the empty match succeeds).
\<close>

fun replace_eq_run_at_end :: "string \<Rightarrow> string" where
  "replace_eq_run_at_end [] = []"
| "replace_eq_run_at_end (c # cs) =
     (if list_all (\<lambda>d. d = CHR ''='') (c # cs) then [] else c # replace_eq_run_at_end cs)"

definition hex_digit :: "nat \<Rightarrow> char" where
  "hex_digit n = ''0123456789ABCDEF'' ! n"

definition uri_unreserved :: "char \<Rightarrow> bool" where
  "uri_unreserved c \<longleftrightarrow>
     c \<in> set (''abcdefghijklmnopqrstuvwxyz'' @ ''ABCDEFGHIJKLMNOPQRSTUVWXYZ'' @ ''0123456789''
              @ ''-_.!~*()'' @ [CHR 0x27])"

text \<open>
  \<^verbatim>\<open>encodeURIComponent(s)\<close>: every byte outside \<^verbatim>\<open>A-Z a-z 0-9 - _ . ! ~ * ' ( )\<close>
  becomes \<^verbatim>\<open>%XX\<close>.
\<close>

definition encodeURIComponent :: "string \<Rightarrow> string" where
  "encodeURIComponent s =
     concat (map (\<lambda>c. if uri_unreserved c then [c]
                       else [CHR ''%'', hex_digit ((of_char c :: nat) div 16),
                             hex_digit ((of_char c :: nat) mod 16)]) s)"

subsection \<open>Base64, as \<^verbatim>\<open>digest('base64')\<close> renders the hash\<close>

definition base64_alphabet :: string where
  "base64_alphabet =
     ''ABCDEFGHIJKLMNOPQRSTUVWXYZ'' @ ''abcdefghijklmnopqrstuvwxyz'' @ ''0123456789'' @ ''+/''"

definition b64 :: "nat \<Rightarrow> char" where
  "b64 n = base64_alphabet ! (n mod 64)"

fun base64 :: "8 word list \<Rightarrow> string" where
  "base64 [] = []"
| "base64 [a] =
     [b64 (unat a div 4), b64 ((unat a mod 4) * 16), CHR ''='', CHR ''='']"
| "base64 [a, b] =
     [b64 (unat a div 4), b64 ((unat a mod 4) * 16 + unat b div 16),
      b64 ((unat b mod 16) * 4), CHR ''='']"
| "base64 (a # b # c # rest) =
     [b64 (unat a div 4), b64 ((unat a mod 4) * 16 + unat b div 16),
      b64 ((unat b mod 16) * 4 + unat c div 64), b64 (unat c mod 64)] @ base64 rest"

subsection \<open>The code challenge\<close>

text \<open>
  The expression of the \<^verbatim>\<open>/auth\<close> handler that derives the challenge from the verifier.
  \<open>sha256\<close> stands for \<^verbatim>\<open>crypto.createHash('sha256').update(v).digest()\<close> of Node's
  library, the digest bytes of the verifier.
\<close>

definition codeChallenge :: "(string \<Rightarrow> 8 word list) \<Rightarrow> string \<Rightarrow> string" where
  "codeChallenge sha256 codeVerifier =
     replace_eq_run_at_end
       (replace_all (CHR ''+'') ''-'' (replace_all (CHR ''/'') ''_'' (base64 (sha256 codeVerifier))))"

text \<open>
  The challenge as the specification words it: \<^verbatim>\<open>+\<close> to \<^verbatim>\<open>-\<close>, then \<^verbatim>\<open>/\<close> to
  \<^verbatim>\<open>_\<close>, then the trailing \<^verbatim>\<open>=\<close> padding stripped.
\<close>

definition strip_trailing_padding :: "string \<Rightarrow> string" where
  "strip_trailing_padding s = rev (dropWhile (\<lambda>c. c = CHR ''='') (rev s))"

definition spec_challenge :: "(string \<Rightarrow> 8 word list) \<Rightarrow> string \<Rightarrow> string" where
  "spec_challenge sha256 v =
     strip_trailing_padding
       (map (\<lambda>c. if c = CHR ''/'' then CHR ''_'' else c)
          (map (\<lambda>c. if c = CHR ''+'' then CHR ''-'' else c) (base64 (sha256 v))))"

subsection \<open>\<^verbatim>\<open>generateRandomString\<close>\<close>

text \<open>
  \<open>rnd i\<close> is the index that iteration \<open>i\<close> of the loop computes,
  \<^verbatim>\<open>Math.floor(Math.random() * allowedChars.length)\<close>: \<^verbatim>\<open>Math.random()\<close> is below 1,
  and the product, rounded to a double, stays below the length, so the index is below the
  length of a non-empty alphabet. \<open>random_chars rnd allowedChars i\<close> is the array
  \<^verbatim>\<open>chars\<close> after \<open>i\<close> iterations.
\<close>

primrec random_chars :: "(nat \<Rightarrow> nat) \<Rightarrow> string \<Rightarrow> nat \<Rightarrow> string list" where
  "random_chars rnd allowedChars 0 = []"
| "random_chars rnd allowedChars (Suc i) =
     random_chars rnd allowedChars i @ [charAt allowedChars (rnd i)]"

definition generateRandomString :: "(nat \<Rightarrow> nat) \<Rightarrow> nat \<Rightarrow> string option \<Rightarrow> string" where
  "generateRandomString rnd len charSet =
     (let allowedChars =
            (case charSet of
               Some cs \<Rightarrow> if cs \<noteq> [] then cs else ''abcdefghijklmnopqrstuvwxyz0123456789''
             | None \<Rightarrow> ''abcdefghijklmnopqrstuvwxyz0123456789'')
      in concat (random_chars rnd allowedChars len))"

subsection \<open>The client, its routes and its promises\<close>

text \<open>
  A route handler that \<^verbatim>\<open>init(resolve, reject)\<close> registers. The \<^verbatim>\<open>/callback\<close> handler
  is a closure over \<^verbatim>\<open>resolve\<close> and \<^verbatim>\<open>reject\<close>: it carries the promise they settle.
\<close>

datatype handler = AuthHandler | CallbackHandler nat

datatype promise_state = Pending | Resolved jsval | Rejected string

record config =
  clientId :: string
  clientSecret :: "string option"
  authUri :: string
  tokenUri :: string
  revokeUri :: string
  logoutUri :: string
  successUri :: string

text \<open>
  The fields of an \<^verbatim>\<open>OAuthClientServer\<close>. \<open>server\<close> is the \<^verbatim>\<open>http.Server\<close> that
  \<^verbatim>\<open>app.listen\<close> returned (named by the port it was asked for) or \<^verbatim>\<open>null\<close>; \<open>app\<close> is
  the route stack of the express application, in registration order; \<open>promises\<close> are the
  promises that \<^verbatim>\<open>authorize\<close> has created so far, which the registered closures refer to.
\<close>

record client = config +
  scopes :: string
  server :: "nat option"
  serverAddress :: "string option"
  sessionStore :: "string \<rightharpoonup> string"
  app :: "(string \<times> handler) list"
  promises :: "promise_state list"

definition constructor :: "config \<Rightarrow> client" where
  "constructor cfg =
     \<lparr>clientId = clientId cfg, clientSecret = clientSecret cfg, authUri = authUri cfg,
      tokenUri = tokenUri cfg, revokeUri = revokeUri cfg, logoutUri = logoutUri cfg,
      successUri = successUri cfg,
      scopes = DEFAULT_SCOPE, server = None, serverAddress = None, sessionStore = Map.empty,
      app = [], promises = []\<rparr>"

text \<open>
  What the code does to the outside, in order. \<open>Uncaught m\<close> is an exception that leaves
  an asynchronous route handler: the promise of the handler is rejected with it and
  nothing handles the rejection.
\<close>

datatype effect =
    Fetch string string
  | Listen nat string
  | ServerClose nat
  | OpenBrowser string
  | ConsoleLog string
  | Uncaught string

text \<open>
  What \<^verbatim>\<open>await fetch(url, {method: 'POST', body})\<close> followed by \<^verbatim>\<open>await res.json()\<close>
  can give: a transport failure, or a response with its status and a body that parses as
  JSON or does not.
\<close>

datatype body = NotJson string | Json jsval

datatype fetch_result = NetworkError string | HttpResponse nat body

type_synonym fetch = "string \<Rightarrow> string \<Rightarrow> fetch_result"

text \<open>
  A request to the local server, and what the handler does with \<^verbatim>\<open>res\<close>:
  \<open>Redirect n uri cookies\<close> is \<^verbatim>\<open>res.cookie\<close> for each cookie and \<^verbatim>\<open>res.redirect\<close>
  with status \<open>n\<close>; \<open>Send n v\<close> is \<^verbatim>\<open>res.status(n)\<close> and \<^verbatim>\<open>res.send(v)\<close>, both
  returning. How Express renders \<open>v\<close> on the wire is not part of it (for a number
  \<open>v\<close>, Express 4 takes \<open>v\<close> for the status).
\<close>

record request =
  path :: string
  cookie_session_state :: jsval
  query_code :: jsval
  query_state :: jsval

datatype reply =
    Redirect nat string "(string \<times> string) list"
  | Send nat jsval
  | NotFound
  | ConnectionRefused

text \<open>Calling \<^verbatim>\<open>resolve\<close> or \<^verbatim>\<open>reject\<close> of a promise: a settled promise stays as it is.\<close>

definition settle :: "nat \<Rightarrow> promise_state \<Rightarrow> client \<Rightarrow> client" where
  "settle p v c =
     (if p < length (promises c) \<and> promises c ! p = Pending
      then c\<lparr>promises := (promises c)[p := v]\<rparr> else c)"

definition secret_param :: "client \<Rightarrow> string" where
  "secret_param c =
     (case clientSecret c of
        Some s \<Rightarrow> if s \<noteq> [] then ''&client_secret='' @ encodeURIComponent s else []
      | None \<Rightarrow> [])"

text \<open>\<^verbatim>\<open>this.serverAddress\<close> inside a template literal or a concatenation.\<close>

definition address_string :: "client \<Rightarrow> string" where
  "address_string c = (case serverAddress c of None \<Rightarrow> ''null'' | Some a \<Rightarrow> a)"

subsection \<open>\<^verbatim>\<open>close\<close>\<close>

definition close :: "client \<Rightarrow> client \<times> effect list" where
  "close c =
     (case server c of
        Some h \<Rightarrow> (c\<lparr>server := None\<rparr>, [ServerClose h])
      | None \<Rightarrow> (c, []))"

subsection \<open>The \<^verbatim>\<open>/auth\<close> handler\<close>

text \<open>
  \<open>vr\<close> and \<open>sr\<close> are the random indices of the two calls of
  \<^verbatim>\<open>generateRandomString\<close> (verifier, state).
\<close>

definition auth_handler ::
  "(string \<Rightarrow> 8 word list) \<Rightarrow> (nat \<Rightarrow> nat) \<Rightarrow> (nat \<Rightarrow> nat) \<Rightarrow> client \<Rightarrow> client \<times> reply" where
  "auth_handler sha256 vr sr c =
     (let alphabet = ''abcdefghijklmnopqrstuvwxyz'';
          charSet = toLowerCase alphabet @ toUpperCase alphabet @ ''0123456789'' @ ''-._~'';
          codeVerifier = generateRandomString vr CODE_VERIFIER_LENGTH (Some charSet);
          challenge = codeChallenge sha256 codeVerifier;
          state = generateRandomString sr STATE_LENGTH None;
          c' = c\<lparr>sessionStore := obj_set (sessionStore c) state codeVerifier\<rparr>;
          uri = authUri c
            @ ''?client_id='' @ encodeURIComponent (clientId c)
            @ ''&redirect_uri='' @ encodeURIComponent (address_string c @ ''/callback'')
            @ ''&response_type=code''
            @ ''&scope='' @ encodeURIComponent (scopes c)
            @ ''&code_challenge='' @ encodeURIComponent challenge
            @ ''&code_challenge_method=S256''
            @ ''&prompt=login''
            @ ''&state='' @ encodeURIComponent state
      in (c', Redirect 302 uri [(''session_state'', state)]))"

subsection \<open>The \<^verbatim>\<open>/callback\<close> handler\<close>

text \<open>
  The handler is asynchronous: it runs up to \<^verbatim>\<open>await fetch(...)\<close>, and resumes when
  the token endpoint has answered; other requests and calls can run in between.
  \<open>callback_begin\<close> is the first part: it either finishes the request or issues the
  token request.
\<close>

datatype progress = Replied reply "effect list" | AwaitFetch string string

text \<open>The \<^verbatim>\<open>else\<close> branch of the handler, with the \<^verbatim>\<open>this.close()\<close> that follows it.\<close>

definition invalid_idp_response :: "nat \<Rightarrow> client \<Rightarrow> client \<times> reply \<times> effect list" where
  "invalid_idp_response p c =
     (let c1 = settle p (Rejected ''Invalid IdP response'') c;
          (c2, effs) = close c1
      in (c2, Send 400 (JStr ''Invalid IdP response''), effs))"

text \<open>
  The \<^verbatim>\<open>catch\<close> block entered with an error of message \<open>m\<close> before anything was sent,
  with the \<^verbatim>\<open>this.close()\<close> that follows it.
\<close>

definition caught :: "nat \<Rightarrow> client \<Rightarrow> string \<Rightarrow> client \<times> reply \<times> effect list" where
  "caught p c m =
     (let c1 = settle p (Rejected m) c;
          (c2, effs) = close c1
      in (c2, Send 500 (JStr m), effs))"

text \<open>
  A value that is \<^verbatim>\<open>===\<close> to another one is a primitive, so when the conversion of
  \<^verbatim>\<open>actualState\<close> to a property key would throw, the comparison with the cookie has
  failed before and the session store is not read. After the entry is deleted the
  \<^verbatim>\<open>try\<close> block builds the body of the token request; the conversion of \<^verbatim>\<open>code\<close>
  (an object with an own \<^verbatim>\<open>toString\<close>, which the query parser of Express lets through)
  can throw there, into the \<^verbatim>\<open>catch\<close> block.
\<close>

definition callback_begin :: "nat \<Rightarrow> client \<Rightarrow> request \<Rightarrow> client \<times> progress" where
  "callback_begin p c req =
     (let state = cookie_session_state req;
          code = query_code req;
          actualState = query_state req
      in case to_string actualState of
           Inl m \<Rightarrow>
             (let (c2, r, effs) = invalid_idp_response p c in (c2, Replied r effs))
         | Inr key \<Rightarrow>
             if truthy actualState \<and> truthy code \<and> strict_eq state actualState
                \<and> obj_get (sessionStore c) key \<noteq> JUndefined
             then
               (let codeVerifier = obj_get (sessionStore c) key;
                    c1 = c\<lparr>sessionStore := obj_delete (sessionStore c) key\<rparr>
                in case to_string code of
                     Inl m \<Rightarrow> (let (c2, r, effs) = caught p c1 m in (c2, Replied r effs))
                   | Inr code_text \<Rightarrow>
                       (case to_string codeVerifier of
                          Inl m \<Rightarrow> (let (c2, r, effs) = caught p c1 m in (c2, Replied r effs))
                        | Inr verifier_text \<Rightarrow>
                            (c1, AwaitFetch (tokenUri c1)
                               (''grant_type=authorization_code''
                                @ ''&client_id='' @ encodeURIComponent (clientId c1)
                                @ secret_param c1
                                @ ''&code='' @ encodeURIComponent code_text
                                @ ''&code_verifier='' @ encodeURIComponent verifier_text
                                @ ''&redirect_uri=''
                                @ encodeURIComponent (address_string c1 @ ''/callback'')))))
             else
               (let (c2, r, effs) = invalid_idp_response p c in (c2, Replied r effs)))"

text \<open>
  \<^verbatim>\<open>res.status(status); res.send(v)\<close>: \<open>Some m\<close> when it throws the error of message
  \<open>m\<close> before anything is written. Node refuses to write a status that is not between
  100 and 999; with Express 4 the status written is \<open>v\<close> itself when \<open>v\<close> is a number.
\<close>

definition send_refused :: "nat \<Rightarrow> jsval \<Rightarrow> string option" where
  "send_refused status v =
     (case v of
        JNum t s i \<Rightarrow> if 100 \<le> i \<and> i \<le> 999 then None else Some (''Invalid status code: '' @ s)
      | _ \<Rightarrow> if 100 \<le> status \<and> status \<le> 999 then None
             else Some (''Invalid status code: '' @ show_nat status))"

text \<open>
  The second part, run on the client as it is when the token endpoint has answered:
  the rest of the \<^verbatim>\<open>try\<close> block or the \<^verbatim>\<open>catch\<close> block, then \<^verbatim>\<open>this.close()\<close>.
  In the branch for a status other than 200, \<^verbatim>\<open>new Error(json.error)\<close> runs after the
  reply has been sent. When it throws, the \<^verbatim>\<open>catch\<close> block calls \<^verbatim>\<open>res.send\<close> on a reply
  whose headers are sent: that throws again, out of the handler, and neither
  \<^verbatim>\<open>reject\<close> nor \<^verbatim>\<open>this.close()\<close> runs.
\<close>

definition callback_end :: "nat \<Rightarrow> client \<Rightarrow> fetch_result \<Rightarrow> client \<times> reply \<times> effect list" where
  "callback_end p c fr =
     (case fr of
        NetworkError m \<Rightarrow> caught p c m
      | HttpResponse status (NotJson m) \<Rightarrow> caught p c m
      | HttpResponse status (Json json) \<Rightarrow>
          if status = 200
          then (let c1 = settle p (Resolved json) c;
                    (c2, effs) = close c1
                in (c2, Redirect 302 (successUri c) [], effs))
          else (case get_member json ''error'' of
                  Inl m \<Rightarrow> caught p c m
                | Inr e \<Rightarrow>
                    (case send_refused status e of
                       Some m \<Rightarrow> caught p c m
                     | None \<Rightarrow>
                         (case error_message e of
                            Inl m \<Rightarrow>
                              (c, Send status e,
                               [Uncaught ''Cannot set headers after they are sent to the client''])
                          | Inr msg \<Rightarrow>
                              (let c1 = settle p (Rejected msg) c;
                                   (c2, effs) = close c1
                               in (c2, Send status e, effs))))))"

text \<open>The whole handler, when nothing else runs while it waits.\<close>

definition callback :: "nat \<Rightarrow> fetch \<Rightarrow> client \<Rightarrow> request \<Rightarrow> client \<times> reply \<times> effect list" where
  "callback p fetch c req =
     (case callback_begin p c req of
        (c1, Replied r effs) \<Rightarrow> (c1, r, effs)
      | (c1, AwaitFetch url bdy) \<Rightarrow>
          (let (c2, r, effs) = callback_end p c1 (fetch url bdy)
           in (c2, r, Fetch url bdy # effs)))"

subsection \<open>\<^verbatim>\<open>init\<close>, \<^verbatim>\<open>authorize\<close> and the listener\<close>

text \<open>\<^verbatim>\<open>this.app.get(path, handler)\<close> appends a route to the stack of the application.\<close>

definition init :: "nat \<Rightarrow> client \<Rightarrow> client" where
  "init p c = c\<lparr>app := app c @ [(''/auth'', AuthHandler), (''/callback'', CallbackHandler p)]\<rparr>"

text \<open>
  What a call of \<^verbatim>\<open>authorize\<close> returns: a promise that is rejected from the start, a
  new promise, or nothing because the call throws (the conversion of the scopes in the
  template literal).
\<close>

datatype authorize_result = RejectedPromise string | NewPromise nat | Throws string

text \<open>
  The executor of the new promise runs \<^verbatim>\<open>init\<close> and \<^verbatim>\<open>app.listen\<close>. For a port above
  65535 \<^verbatim>\<open>listen\<close> throws in the executor (in the wording of Node 16 and later): the
  new promise is rejected and \<^verbatim>\<open>this.server\<close> is not assigned.
\<close>

definition authorize :: "client \<Rightarrow> jsval \<Rightarrow> nat option \<Rightarrow> authorize_result \<times> client \<times> effect list" where
  "authorize c scopes_arg port_arg =
     (if server c \<noteq> None
      then (RejectedPromise ''Pending authorization flow. Close existing session to rerun.'', c, [])
      else
        (case (if truthy scopes_arg
               then (case to_string scopes_arg of
                       Inl m \<Rightarrow> Inl m
                     | Inr s \<Rightarrow> Inr (s @ SCOPE_SEPARATOR @ DEFAULT_SCOPE))
               else Inr DEFAULT_SCOPE) of
           Inl m \<Rightarrow> (Throws m, c, [])
         | Inr recorded \<Rightarrow>
             (let port = (case port_arg of None \<Rightarrow> PORT | Some n \<Rightarrow> n);
                  c1 = c\<lparr>scopes := recorded\<rparr>;
                  p = length (promises c1);
                  c2 = init p (c1\<lparr>promises := promises c1 @ [Pending]\<rparr>)
              in if 65535 < port
                 then (NewPromise p,
                       settle p (Rejected (''options.port should be >= 0 and < 65536. ''
                                           @ ''Received type number ('' @ show_nat port @ '').'')) c2,
                       [])
                 else (NewPromise p, c2\<lparr>server := Some port\<rparr>, [Listen port HOST]))))"

text \<open>
  The callback of \<^verbatim>\<open>app.listen\<close>, run when the listener is bound to port \<open>bound\<close>;
  \<^verbatim>\<open>this.server.address()\<close> throws when \<^verbatim>\<open>close()\<close> has cleared the handle meanwhile.
\<close>

definition listening :: "client \<Rightarrow> nat \<Rightarrow> (client \<times> effect list) option" where
  "listening c bound =
     (case server c of
        None \<Rightarrow> None
      | Some h \<Rightarrow>
          (let c1 = c\<lparr>serverAddress := Some (''http://'' @ HOST @ '':'' @ show_nat bound)\<rparr>
           in Some (c1, [ConsoleLog ''Redirecting to authorization URL'',
                         OpenBrowser (address_string c1 @ ''/auth'')])))"

text \<open>
  How a request reaches the local server: on a new connection, which needs a listener,
  or on a connection that was accepted earlier and kept alive (\<^verbatim>\<open>server.close()\<close> stops
  the listener and leaves such connections open).
\<close>

datatype connection = NewConnection | KeptAlive

text \<open>
  Express matches a route path without regard to case and with an optional trailing
  slash.
\<close>

definition route_matches :: "string \<Rightarrow> string \<times> handler \<Rightarrow> bool" where
  "route_matches p route \<longleftrightarrow> toLowerCase p = fst route \<or> toLowerCase p = fst route @ ''/''"

text \<open>
  A GET request arriving at the local server. A new connection is refused when no
  listener is bound (and is taken to arrive only after the listener of a set handle is
  bound). Express runs the first route of the stack that matches; neither handler calls
  \<^verbatim>\<open>next\<close>, so no later route runs: after a second \<^verbatim>\<open>init\<close> the routes of the first
  one still come first.
\<close>

definition serve ::
  "(string \<Rightarrow> 8 word list) \<Rightarrow> (nat \<Rightarrow> nat) \<Rightarrow> (nat \<Rightarrow> nat) \<Rightarrow> fetch \<Rightarrow> connection \<Rightarrow> client
     \<Rightarrow> request \<Rightarrow> client \<times> reply \<times> effect list" where
  "serve sha256 vr sr fetch conn c req =
     (if conn = NewConnection \<and> server c = None then (c, ConnectionRefused, [])
      else (case find (route_matches (path req)) (app c) of
              None \<Rightarrow> (c, NotFound, [])
            | Some (r, AuthHandler) \<Rightarrow>
                (let (c1, rep) = auth_handler sha256 vr sr c in (c1, rep, []))
            | Some (r, CallbackHandler p) \<Rightarrow> callback p fetch c req))"

subsection \<open>The token client\<close>

text \<open>
  \<^verbatim>\<open>new Error(json.error_description || json.error || 'Unknown Error')\<close>, thrown: the
  message of the error that leaves the function, which is the \<^verbatim>\<open>TypeError\<close> of a member
  read or of the conversion when one of these throws.
\<close>

definition upstream_error :: "jsval \<Rightarrow> string" where
  "upstream_error json =
     (case get_member json ''error_description'' of
        Inl m \<Rightarrow> m
      | Inr d \<Rightarrow>
          (if truthy d then (case error_message d of Inl m \<Rightarrow> m | Inr m \<Rightarrow> m)
           else (case get_member json ''error'' of
                   Inl m \<Rightarrow> m
                 | Inr e \<Rightarrow>
                     (case error_message (js_or e (JStr ''Unknown Error'')) of
                        Inl m \<Rightarrow> m
                      | Inr m \<Rightarrow> m))))"

definition refresh :: "client \<Rightarrow> string \<Rightarrow> fetch \<Rightarrow> (string + jsval) \<times> effect list" where
  "refresh c refreshToken fetch =
     (let url = tokenUri c;
          bdy = ''grant_type=refresh_token''
            @ ''&refresh_token='' @ encodeURIComponent refreshToken
            @ ''&client_id='' @ encodeURIComponent (clientId c)
            @ secret_param c
      in ((case fetch url bdy of
             NetworkError m \<Rightarrow> Inl m
           | HttpResponse status (NotJson m) \<Rightarrow> Inl m
           | HttpResponse status (Json json) \<Rightarrow>
               if status \<noteq> 200 then Inl (upstream_error json) else Inr json),
          [Fetch url bdy]))"

definition revoke :: "client \<Rightarrow> string \<Rightarrow> string \<Rightarrow> fetch \<Rightarrow> (string + unit) \<times> effect list" where
  "revoke c token tokenType fetch =
     (let url = revokeUri c;
          bdy = ''token='' @ encodeURIComponent token
            @ ''&token_type_hint='' @ encodeURIComponent tokenType
            @ ''&client_id='' @ encodeURIComponent (clientId c)
            @ secret_param c
      in ((case fetch url bdy of
             NetworkError m \<Rightarrow> Inl m
           | HttpResponse status b \<Rightarrow>
               if status \<noteq> 200
               then (case b of NotJson m \<Rightarrow> Inl m | Json json \<Rightarrow> Inl (upstream_error json))
               else Inr ()),
          [Fetch url bdy]))"

definition revokeAndGetLogoutUrl :: "client \<Rightarrow> string \<Rightarrow> fetch \<Rightarrow> (string + string) \<times> effect list" where
  "revokeAndGetLogoutUrl c refreshToken fetch =
     (case refresh c refreshToken fetch of
        (Inl m, effs) \<Rightarrow> (Inl m, effs)
      | (Inr resp, effs) \<Rightarrow>
          (case revoke c refreshToken ''refresh_token'' fetch of
             (Inl m, effs') \<Rightarrow> (Inl m, effs @ effs')
           | (Inr u, effs') \<Rightarrow>
               (case get_member resp ''id_token'' of
                  Inl m \<Rightarrow> (Inl m, effs @ effs')
                | Inr t \<Rightarrow>
                    (case to_string t of
                       Inl m \<Rightarrow> (Inl m, effs @ effs')
                     | Inr token_text \<Rightarrow>
                         (Inr (logoutUri c @ ''?id_token_hint='' @ token_text), effs @ effs')))))"

subsection \<open>The states a client can be in\<close>

text \<open>The indices that \<^verbatim>\<open>generateRandomString\<close> draws for an alphabet of \<open>n\<close> characters.\<close>

definition indices_below :: "nat \<Rightarrow> (nat \<Rightarrow> nat) \<Rightarrow> bool" where
  "indices_below n rnd \<longleftrightarrow> (\<forall>i. rnd i < n)"

text \<open>
  The clients that arise from a new client by calls of \<^verbatim>\<open>authorize\<close> and \<^verbatim>\<open>close\<close>,
  by the listener's callback and by runs of the two handlers, where the parts of a
  \<^verbatim>\<open>/callback\<close> run may be interleaved with anything else.
\<close>

inductive reachable :: "client \<Rightarrow> bool" where
  new: "reachable (constructor cfg)"
| authorize: "reachable c \<Longrightarrow> authorize c scopes_arg port_arg = (r, c', effs) \<Longrightarrow> reachable c'"
| listening: "reachable c \<Longrightarrow> listening c bound = Some (c', effs) \<Longrightarrow> reachable c'"
| auth: "reachable c \<Longrightarrow> indices_below 66 vr \<Longrightarrow> indices_below 36 sr
           \<Longrightarrow> auth_handler sha256 vr sr c = (c', r) \<Longrightarrow> reachable c'"
| callback_begin: "reachable c \<Longrightarrow> callback_begin p c req = (c', pr) \<Longrightarrow> reachable c'"
| callback_end: "reachable c \<Longrightarrow> callback_end p c fr = (c', r, effs) \<Longrightarrow> reachable c'"
| close: "reachable c \<Longrightarrow> close c = (c', effs) \<Longrightarrow> reachable c'"

text \<open>The shape of a state value that \<^verbatim>\<open>generateRandomString(STATE_LENGTH)\<close> returns.\<close>

definition issued_state :: "string \<Rightarrow> bool" where
  "issued_state k \<longleftrightarrow>
     length k = STATE_LENGTH \<and> set k \<subseteq> set ''abcdefghijklmnopqrstuvwxyz0123456789''"

text \<open>The invariant of the session store: every key is a state value that was issued.\<close>

definition store_inv :: "client \<Rightarrow> bool" where
  "store_inv c \<longleftrightarrow> (\<forall>k v. sessionStore c k = Some v \<longrightarrow> issued_state k)"

subsection \<open>A concrete client and a concrete run\<close>

text \<open>
  The configuration, the requests and the run below instantiate the theorems and carry
  the concrete executions. \<open>example_digest\<close> stands in for SHA-256; \<open>example_rnd\<close> makes
  every random index 18.
\<close>

definition example_config :: config where
  "example_config =
     \<lparr>clientId = ''cli'', clientSecret = None,
      authUri = ''https://idp.example/authorize'', tokenUri = ''https://idp.example/token'',
      revokeUri = ''https://idp.example/revoke'', logoutUri = ''https://idp.example/logout'',
      successUri = ''https://app.example/done''\<rparr>"

definition example_digest :: "string \<Rightarrow> 8 word list" where
  "example_digest v = [0xfb, 0xff, 0xfe, 0x3e]"

definition example_rnd :: "nat \<Rightarrow> nat" where
  "example_rnd i = 18"

definition example_state :: string where
  "example_state = ''ssssssssssssssssssss''"

definition example_verifier :: string where
  "example_verifier = replicate 80 (CHR ''s'')"

text \<open>\<^verbatim>\<open>authorize('offline_access email')\<close> on a new client, then the listener is bound.\<close>

definition example_started :: client where
  "example_started =
     fst (snd (authorize (constructor example_config) (JStr ''offline_access email'') None))"

definition example_listening :: client where
  "example_listening =
     (case listening example_started 5555 of Some (c, effs) \<Rightarrow> c | None \<Rightarrow> example_started)"

text \<open>The browser requests \<^verbatim>\<open>/auth\<close>.\<close>

definition example_auth_request :: request where
  "example_auth_request =
     \<lparr>path = ''/auth'', cookie_session_state = JUndefined, query_code = JUndefined,
      query_state = JUndefined\<rparr>"

definition example_after_auth :: client where
  "example_after_auth =
     fst (serve example_digest example_rnd example_rnd (\<lambda>url bdy. NetworkError ''unreachable'')
            NewConnection example_listening example_auth_request)"

text \<open>A \<^verbatim>\<open>/callback\<close> request with the given cookie state, code and state.\<close>

definition callback_request :: "jsval \<Rightarrow> jsval \<Rightarrow> jsval \<Rightarrow> request" where
  "callback_request cookie code st =
     \<lparr>path = ''/callback'', cookie_session_state = cookie, query_code = code, query_state = st\<rparr>"

text \<open>A token endpoint that answers every request with status 400 and the given JSON.\<close>

definition refusing :: "jsval \<Rightarrow> fetch" where
  "refusing json url bdy = HttpResponse 400 (Json json)"

text \<open>
  Stubs for the logout path: the token endpoint answers 200 with the given JSON, the
  revocation endpoint answers with the given status and an empty JSON object.
\<close>

definition stub :: "client \<Rightarrow> jsval \<Rightarrow> nat \<Rightarrow> fetch" where
  "stub c json revoke_status url bdy =
     (if url = tokenUri c then HttpResponse 200 (Json json)
      else HttpResponse revoke_status (Json (JObject [])))"

text \<open>
  The flow is abandoned with \<^verbatim>\<open>close()\<close> after the \<^verbatim>\<open>/auth\<close> request and before any
  \<^verbatim>\<open>/callback\<close> request.
\<close>

definition example_closed :: client where
  "example_closed = fst (close example_after_auth)"

text \<open>
  Or it is abandoned before the \<^verbatim>\<open>/auth\<close> request, and \<^verbatim>\<open>authorize()\<close> is called again
  on the same client; its listener is bound.
\<close>

definition example_restarted :: client where
  "example_restarted =
     (case listening (fst (snd (authorize (fst (close example_listening)) JUndefined None))) 5555 of
        Some (c, effs) \<Rightarrow> c
      | None \<Rightarrow> example_listening)"

section \<open>The code challenge is URL-safe base64 of the digest\<close>

lemma replace_all_single: "replace_all c [d] s = map (\<lambda>x. if x = c then d else x) s"
  by (induction s) (simp_all add: replace_all_def)

lemma replace_eq_run_at_end_all: "list_all (\<lambda>d. d = CHR ''='') s \<Longrightarrow> replace_eq_run_at_end s = []"
  by (cases s) simp_all

lemma replace_eq_run_at_end_strip: "replace_eq_run_at_end s = strip_trailing_padding s"
proof (induction s)
  case Nil
  show ?case by (simp add: strip_trailing_padding_def)
next
  case (Cons c cs)
  show ?case
  proof (cases "list_all (\<lambda>d. d = CHR ''='') (c # cs)")
    case True
    then have "dropWhile (\<lambda>d. d = CHR ''='') (rev (c # cs)) = []"
      by (auto simp: list_all_iff)
    with True show ?thesis by (simp add: strip_trailing_padding_def)
  next
    case False
    show ?thesis
    proof (cases "list_all (\<lambda>d. d = CHR ''='') cs")
      case True
      with False have c: "c \<noteq> CHR ''=''" by simp
      have "dropWhile (\<lambda>d. d = CHR ''='') (rev cs @ [c]) = dropWhile (\<lambda>d. d = CHR ''='') [c]"
        by (rule dropWhile_append2) (use True in \<open>simp add: list_all_iff\<close>)
      also have "\<dots> = [c]" using c by simp
      finally have dw: "strip_trailing_padding (c # cs) = [c]"
        by (simp add: strip_trailing_padding_def)
      have "replace_eq_run_at_end (c # cs) = [c]"
        using False True by (simp add: replace_eq_run_at_end_all)
      with dw show ?thesis by simp
    next
      case notall: False
      then obtain x where "x \<in> set (rev cs)" "x \<noteq> CHR ''=''"
        by (auto simp: list_all_iff)
      then have "dropWhile (\<lambda>d. d = CHR ''='') (rev cs @ [c]) = dropWhile (\<lambda>d. d = CHR ''='') (rev cs) @ [c]"
        by (intro dropWhile_append1) auto
      with False Cons.IH show ?thesis
        by (simp add: strip_trailing_padding_def)
    qed
  qed
qed


lemma strip_trailing_padding_subset: "set (strip_trailing_padding s) \<subseteq> set s"
proof
  fix x assume "x \<in> set (strip_trailing_padding s)"
  then have "x \<in> set (dropWhile (\<lambda>c. c = CHR ''='') (rev s))"
    by (simp add: strip_trailing_padding_def)
  then have "x \<in> set (rev s)" by (rule set_dropWhileD)
  then show "x \<in> set s" by simp
qed

lemma strip_trailing_padding_no_eq: "strip_trailing_padding s \<noteq> t @ ''=''"
proof
  assume "strip_trailing_padding s = t @ ''=''"
  then have "rev (strip_trailing_padding s) = rev (t @ ''='')" by (rule arg_cong)
  then have d: "dropWhile (\<lambda>c. c = CHR ''='') (rev s) = CHR ''='' # rev t"
    by (simp add: strip_trailing_padding_def)
  then have "dropWhile (\<lambda>c. c = CHR ''='') (rev s) \<noteq> []" by simp
  then have "hd (dropWhile (\<lambda>c. c = CHR ''='') (rev s)) \<noteq> CHR ''=''"
    by (rule hd_dropWhile)
  with d show False by simp
qed

text \<open>
  Claim C2. For every verifier \<open>V\<close>, the challenge that the code derives is the base64
  rendering of the SHA-256 digest of \<open>V\<close> with every \<^verbatim>\<open>+\<close> replaced by \<^verbatim>\<open>-\<close>, every
  \<^verbatim>\<open>/\<close> replaced by \<^verbatim>\<open>_\<close> and the trailing \<^verbatim>\<open>=\<close> padding removed (the code
  replaces \<^verbatim>\<open>/\<close> first and strips with a regular expression; the result is the same).
  It is a function of \<open>V\<close>, hence deterministic, and it contains no \<^verbatim>\<open>+\<close>, no \<^verbatim>\<open>/\<close>
  and does not end in \<^verbatim>\<open>=\<close>.
\<close>

theorem codeChallenge_urlsafe:
  "codeChallenge sha256 V = spec_challenge sha256 V
   \<and> (\<forall>V'. V' = V \<longrightarrow> codeChallenge sha256 V' = codeChallenge sha256 V)
   \<and> CHR ''+'' \<notin> set (codeChallenge sha256 V)
   \<and> CHR ''/'' \<notin> set (codeChallenge sha256 V)
   \<and> \<not> (\<exists>t. codeChallenge sha256 V = t @ ''='')"
proof -
  let ?b = "base64 (sha256 V)"
  let ?m = "map (\<lambda>c. if c = CHR ''/'' then CHR ''_'' else c)
              (map (\<lambda>c. if c = CHR ''+'' then CHR ''-'' else c) ?b)"
  have swap: "replace_all (CHR ''+'') ''-'' (replace_all (CHR ''/'') ''_'' ?b) = ?m"
    by (simp add: replace_all_single)
  have eq: "codeChallenge sha256 V = strip_trailing_padding ?m"
    unfolding codeChallenge_def swap by (rule replace_eq_run_at_end_strip)
  have plus: "CHR ''+'' \<notin> set ?m" by auto
  have slash: "CHR ''/'' \<notin> set ?m" by auto
  from eq have 1: "codeChallenge sha256 V = spec_challenge sha256 V"
    by (simp add: spec_challenge_def)
  from eq plus have 2: "CHR ''+'' \<notin> set (codeChallenge sha256 V)"
    using strip_trailing_padding_subset [of ?m] by auto
  from eq slash have 3: "CHR ''/'' \<notin> set (codeChallenge sha256 V)"
    using strip_trailing_padding_subset [of ?m] by auto
  from eq have 4: "\<not> (\<exists>t. codeChallenge sha256 V = t @ ''='')"
    by (simp add: strip_trailing_padding_no_eq)
  from 1 2 3 4 show ?thesis by blast
qed

text \<open>
  The theorem at a digest whose base64 rendering has all three characters, and at the
  verifier and digest of RFC 7636, Appendix B, with the challenge given there.
\<close>

theorem codeChallenge_urlsafe_witness:
  "base64 [0xfb, 0xff, 0xfe, 0x3e :: 8 word] = ''+//+Pg==''
   \<and> codeChallenge (\<lambda>v. [0xfb, 0xff, 0xfe, 0x3e]) ''verifier'' = ''-__-Pg''
   \<and> spec_challenge (\<lambda>v. [0xfb, 0xff, 0xfe, 0x3e]) ''verifier'' = ''-__-Pg''
   \<and> spec_challenge
       (\<lambda>v. [19, 211, 30, 150, 26, 26, 216, 236, 47, 22, 177, 12, 76, 152, 46, 8,
             118, 168, 120, 173, 109, 241, 68, 86, 110, 225, 137, 74, 203, 112, 249, 195])
       ''dBjftJeZ4CVP-mB92K27uhbUJU1p1r_wW1gFWFOEjXk''
     = ''E9Melhoa2OwvFrEMTJguCHaoeK1t8URWbuGJSstw-cM''"
proof -
  let ?rfc = "\<lambda>v::string. [19, 211, 30, 150, 26, 26, 216, 236, 47, 22, 177, 12, 76, 152, 46, 8,
      118, 168, 120, 173, 109, 241, 68, 86, 110, 225, 137, 74, 203, 112, 249, 195 :: 8 word]"
  have b: "base64 [0xfb, 0xff, 0xfe, 0x3e :: 8 word] = ''+//+Pg==''"
    by (simp add: b64_def base64_alphabet_def)
  have c: "codeChallenge (\<lambda>v. [0xfb, 0xff, 0xfe, 0x3e]) ''verifier'' = ''-__-Pg''"
    by (simp add: codeChallenge_def replace_all_def b64_def base64_alphabet_def)
  have r: "codeChallenge ?rfc ''dBjftJeZ4CVP-mB92K27uhbUJU1p1r_wW1gFWFOEjXk''
           = ''E9Melhoa2OwvFrEMTJguCHaoeK1t8URWbuGJSstw-cM''"
    by (simp add: codeChallenge_def replace_all_def b64_def base64_alphabet_def)
  have "codeChallenge (\<lambda>v. [0xfb, 0xff, 0xfe, 0x3e]) ''verifier''
        = spec_challenge (\<lambda>v. [0xfb, 0xff, 0xfe, 0x3e]) ''verifier''"
    using codeChallenge_urlsafe [of "\<lambda>v. [0xfb, 0xff, 0xfe, 0x3e]" "''verifier''"] by (rule conjunct1)
  moreover have "codeChallenge ?rfc ''dBjftJeZ4CVP-mB92K27uhbUJU1p1r_wW1gFWFOEjXk''
        = spec_challenge ?rfc ''dBjftJeZ4CVP-mB92K27uhbUJU1p1r_wW1gFWFOEjXk''"
    using codeChallenge_urlsafe [of ?rfc "''dBjftJeZ4CVP-mB92K27uhbUJU1p1r_wW1gFWFOEjXk''"]
    by (rule conjunct1)
  ultimately show ?thesis using b c r by simp
qed

section \<open>The concrete run, evaluated\<close>

lemma random_chars_constant:
  "random_chars (\<lambda>i. k) allowed n = replicate n (charAt allowed k)"
  by (induction n) (simp_all add: replicate_append_same)

lemma example_rnd_constant: "example_rnd = (\<lambda>i. 18)"
  by (simp add: fun_eq_iff example_rnd_def)

lemma example_rnd_below: "indices_below 66 example_rnd" "indices_below 36 example_rnd"
  by (simp_all add: indices_below_def example_rnd_def)

lemma example_state_replicate: "example_state = replicate 20 (CHR ''s'')"
  unfolding example_state_def by code_simp

lemma example_state_generated: "generateRandomString example_rnd STATE_LENGTH None = example_state"
  by (simp add: generateRandomString_def example_rnd_constant random_chars_constant charAt_def
      STATE_LENGTH_def example_state_replicate)

lemma toUpperCase_alphabet:
  "toUpperCase ''abcdefghijklmnopqrstuvwxyz'' = ''ABCDEFGHIJKLMNOPQRSTUVWXYZ''"
  by code_simp

lemma toLowerCase_alphabet:
  "toLowerCase ''abcdefghijklmnopqrstuvwxyz'' = ''abcdefghijklmnopqrstuvwxyz''"
  by (simp add: toLowerCase_def)

lemma example_verifier_generated:
  "generateRandomString example_rnd CODE_VERIFIER_LENGTH
     (Some (toLowerCase ''abcdefghijklmnopqrstuvwxyz'' @ toUpperCase ''abcdefghijklmnopqrstuvwxyz''
            @ ''0123456789-._~'')) = example_verifier"
  by (simp add: generateRandomString_def example_rnd_constant random_chars_constant charAt_def
      CODE_VERIFIER_LENGTH_def example_verifier_def toLowerCase_alphabet toUpperCase_alphabet)

lemma auth_handler_client:
  "fst (auth_handler sha256 vr sr c)
   = c\<lparr>sessionStore :=
         obj_set (sessionStore c) (generateRandomString sr STATE_LENGTH None)
           (generateRandomString vr CODE_VERIFIER_LENGTH
              (Some (toLowerCase ''abcdefghijklmnopqrstuvwxyz''
                     @ toUpperCase ''abcdefghijklmnopqrstuvwxyz'' @ ''0123456789-._~'')))\<rparr>"
  by (simp add: auth_handler_def Let_def)

lemma example_started_eq:
  "example_started =
     \<lparr>clientId = ''cli'', clientSecret = None,
      authUri = ''https://idp.example/authorize'', tokenUri = ''https://idp.example/token'',
      revokeUri = ''https://idp.example/revoke'', logoutUri = ''https://idp.example/logout'',
      successUri = ''https://app.example/done'',
      scopes = ''offline_access email openid'', server = Some 5555, serverAddress = None,
      sessionStore = Map.empty,
      app = [(''/auth'', AuthHandler), (''/callback'', CallbackHandler 0)],
      promises = [Pending]\<rparr>"
  by (simp add: example_started_def authorize_def constructor_def example_config_def init_def
      Let_def PORT_def SCOPE_SEPARATOR_def DEFAULT_SCOPE_def)

lemma show_nat_5555: "show_nat 5555 = ''5555''"
  by (simp add: show_nat.simps digit_char_def)

lemma example_listening_eq:
  "example_listening = example_started\<lparr>serverAddress := Some ''http://localhost:5555''\<rparr>"
  by (simp add: example_listening_def listening_def example_started_eq Let_def HOST_def
      show_nat_5555)

lemma example_listening_fields:
  "server example_listening = Some 5555"
  "app example_listening = [(''/auth'', AuthHandler), (''/callback'', CallbackHandler 0)]"
  "sessionStore example_listening = Map.empty"
  "promises example_listening = [Pending]"
  "scopes example_listening = ''offline_access email openid''"
  "serverAddress example_listening = Some ''http://localhost:5555''"
  "tokenUri example_listening = ''https://idp.example/token''"
  "revokeUri example_listening = ''https://idp.example/revoke''"
  "logoutUri example_listening = ''https://idp.example/logout''"
  "successUri example_listening = ''https://app.example/done''"
  "authUri example_listening = ''https://idp.example/authorize''"
  "clientId example_listening = ''cli''"
  "clientSecret example_listening = None"
  by (simp_all add: example_listening_eq example_started_eq)

lemma example_after_auth_eq:
  "example_after_auth = example_listening\<lparr>sessionStore := [example_state \<mapsto> example_verifier]\<rparr>"
proof -
  have ne: "example_state \<noteq> ''__proto__''" by (simp add: example_state_def)
  have "example_after_auth
        = fst (auth_handler example_digest example_rnd example_rnd example_listening)"
    by (simp add: example_after_auth_def serve_def example_listening_fields
        example_auth_request_def route_matches_def toLowerCase_def case_prod_beta)
  also have "\<dots> = example_listening\<lparr>sessionStore := [example_state \<mapsto> example_verifier]\<rparr>"
    using ne by (simp only: auth_handler_client example_state_generated example_verifier_generated
        obj_set_def example_listening_fields if_False)
  finally show ?thesis .
qed

lemma reachable_authorize: "reachable c \<Longrightarrow> reachable (fst (snd (authorize c scopes_arg port_arg)))"
  by (cases "authorize c scopes_arg port_arg") (auto intro: reachable.authorize)

lemma reachable_auth_handler:
  "reachable c \<Longrightarrow> indices_below 66 vr \<Longrightarrow> indices_below 36 sr
   \<Longrightarrow> reachable (fst (auth_handler sha256 vr sr c))"
  by (cases "auth_handler sha256 vr sr c") (auto intro: reachable.auth)

lemma reachable_close: "reachable c \<Longrightarrow> reachable (fst (close c))"
  by (cases "close c") (auto intro: reachable.close)

lemma reachable_example_started: "reachable example_started"
  unfolding example_started_def by (rule reachable_authorize [OF reachable.new])

lemma reachable_example_listening: "reachable example_listening"
proof (rule reachable.listening [OF reachable_example_started])
  show "listening example_started 5555
        = Some (example_listening,
                [ConsoleLog ''Redirecting to authorization URL'',
                 OpenBrowser ''http://localhost:5555/auth''])"
    by (simp add: example_listening_eq listening_def example_started_eq Let_def HOST_def
        show_nat_5555 address_string_def)
qed

lemma reachable_example_after_auth: "reachable example_after_auth"
proof -
  have eq: "example_after_auth
        = fst (auth_handler example_digest example_rnd example_rnd example_listening)"
    by (simp add: example_after_auth_def serve_def example_listening_fields
        example_auth_request_def route_matches_def toLowerCase_def case_prod_beta)
  show ?thesis
    unfolding eq
    by (rule reachable_auth_handler [OF reachable_example_listening example_rnd_below])
qed

section \<open>Issued states and the session store\<close>

lemma random_chars_shape:
  assumes "indices_below (length allowed) rnd"
  shows "length (concat (random_chars rnd allowed n)) = n
         \<and> set (concat (random_chars rnd allowed n)) \<subseteq> set allowed"
proof (induction n)
  case 0
  show ?case by simp
next
  case (Suc n)
  have "rnd n < length allowed"
    using assms by (simp add: indices_below_def)
  then show ?case using Suc by (simp add: charAt_def)
qed

lemma generateRandomString_issued:
  assumes "indices_below 36 rnd"
  shows "issued_state (generateRandomString rnd STATE_LENGTH None)"
proof -
  have "length ''abcdefghijklmnopqrstuvwxyz0123456789'' = 36" by simp
  with assms have "indices_below (length ''abcdefghijklmnopqrstuvwxyz0123456789'') rnd"
    by (simp only:)
  from random_chars_shape [OF this, of STATE_LENGTH] show ?thesis
    by (simp add: generateRandomString_def issued_state_def)
qed

lemma issued_state_not_inherited:
  assumes "issued_state k"
  shows "map_of Object_prototype k = None" and "k \<noteq> ''__proto__''" and "k \<noteq> []"
proof -
  have len: "length k = 20" and chars: "set k \<subseteq> set ''abcdefghijklmnopqrstuvwxyz0123456789''"
    using assms by (simp_all add: issued_state_def STATE_LENGTH_def)
  from len show "k \<noteq> []" by auto
  from len show "k \<noteq> ''__proto__''" by auto
  have "k \<noteq> ''propertyIsEnumerable''"
  proof
    assume "k = ''propertyIsEnumerable''"
    then have "CHR ''I'' \<in> set k" by simp
    with chars have "CHR ''I'' \<in> set ''abcdefghijklmnopqrstuvwxyz0123456789''" by (rule subsetD)
    then show False by simp
  qed
  moreover from len have "k \<noteq> ''constructor''" "k \<noteq> ''__defineGetter__''" "k \<noteq> ''__defineSetter__''"
    "k \<noteq> ''hasOwnProperty''" "k \<noteq> ''__lookupGetter__''" "k \<noteq> ''__lookupSetter__''"
    "k \<noteq> ''isPrototypeOf''" "k \<noteq> ''toString''" "k \<noteq> ''valueOf''" "k \<noteq> ''__proto__''"
    "k \<noteq> ''toLocaleString''"
    by auto
  ultimately show "map_of Object_prototype k = None"
    by (simp add: Object_prototype_def)
qed


lemma sessionStore_settle: "sessionStore (settle p v c) = sessionStore c"
  by (simp add: settle_def)

lemma sessionStore_close: "sessionStore (fst (close c)) = sessionStore c"
  by (simp add: close_def split: option.splits)

lemma sessionStore_authorize: "sessionStore (fst (snd (authorize c sc port))) = sessionStore c"
  by (simp add: authorize_def init_def Let_def sessionStore_settle split: sum.splits)

lemma sessionStore_listening: "listening c bound = Some (c', effs) \<Longrightarrow> sessionStore c' = sessionStore c"
  by (auto simp: listening_def Let_def split: option.splits)

lemma sessionStore_invalid_idp_response:
  "sessionStore (fst (invalid_idp_response p c)) = sessionStore c"
  by (simp add: invalid_idp_response_def Let_def case_prod_beta sessionStore_settle
      sessionStore_close)

lemma sessionStore_caught: "sessionStore (fst (caught p c m)) = sessionStore c"
  by (simp add: caught_def Let_def case_prod_beta sessionStore_settle sessionStore_close)

lemma sessionStore_callback_end: "sessionStore (fst (callback_end p c fr)) = sessionStore c"
  by (simp add: callback_end_def Let_def case_prod_beta sessionStore_settle sessionStore_close
      sessionStore_caught split: fetch_result.splits body.splits sum.splits option.splits)

lemma sessionStore_callback_begin:
  "sessionStore (fst (callback_begin p c req)) = sessionStore c
   \<or> (\<exists>k. sessionStore (fst (callback_begin p c req)) = (sessionStore c)(k := None))"
  by (auto simp: callback_begin_def Let_def case_prod_beta obj_delete_def
      sessionStore_invalid_idp_response sessionStore_caught split: sum.splits)

lemma sessionStore_auth_handler:
  "sessionStore (fst (auth_handler sha256 vr sr c))
   = obj_set (sessionStore c) (generateRandomString sr STATE_LENGTH None)
       (generateRandomString vr CODE_VERIFIER_LENGTH
          (Some (toLowerCase ''abcdefghijklmnopqrstuvwxyz'' @ toUpperCase ''abcdefghijklmnopqrstuvwxyz''
                 @ ''0123456789'' @ ''-._~'')))"
  by (simp add: auth_handler_def Let_def)

lemma reachable_store_inv: "reachable c \<Longrightarrow> store_inv c"
proof (induction rule: reachable.induct)
  case (new cfg)
  show ?case by (simp add: store_inv_def constructor_def)
next
  case (authorize c scopes_arg port_arg r c' effs)
  then show ?case using sessionStore_authorize [of c scopes_arg port_arg]
    by (simp add: store_inv_def)
next
  case (listening c bound c' effs)
  then show ?case using sessionStore_listening [of c bound c' effs]
    by (simp add: store_inv_def)
next
  case (auth c vr sr sha256 c' r)
  then show ?case using sessionStore_auth_handler [of sha256 vr sr c]
      generateRandomString_issued [of sr]
    by (auto simp: store_inv_def obj_set_def split: if_splits)
next
  case (callback_begin c p req c' pr)
  then show ?case using sessionStore_callback_begin [of p c req]
    by (auto simp: store_inv_def split: if_splits)
next
  case (callback_end c p fr c' r effs)
  then show ?case using sessionStore_callback_end [of p c fr]
    by (simp add: store_inv_def)
next
  case (close c c' effs)
  then show ?case using sessionStore_close [of c]
    by (simp add: store_inv_def)
qed

lemma close_no_fetch: "Fetch u b \<notin> set (snd (close c))"
  by (simp add: close_def split: option.splits)

lemma invalid_idp_response_no_fetch: "Fetch u b \<notin> set (snd (snd (invalid_idp_response p c)))"
  by (simp add: invalid_idp_response_def Let_def case_prod_beta close_no_fetch)

lemma callback_unknown_state:
  assumes "sessionStore c st = None" and "map_of Object_prototype st = None"
    and "query_state req = JStr st"
  shows "callback p fetch c req = invalid_idp_response p c"
  using assms by (simp add: callback_def callback_begin_def obj_get_def case_prod_beta)

lemma caught_reply: "fst (snd (caught p c m)) = Send 500 (JStr m)"
  by (simp add: caught_def Let_def case_prod_beta)

text \<open>
  Claim C3. Take a client that the code can reach, whose session store has an entry for
  the state \<open>st\<close>, and two \<^verbatim>\<open>/callback\<close> requests carrying \<open>st\<close>, the first with
  a matching cookie and a code. The first request passes validation and removes the
  entry before the token exchange: the token request is issued next, unless the
  conversion of the code to text throws, in which case the handler answers 500 and no
  token request is made. The second request, whether it is handled while the first waits
  for the token endpoint or after the first has finished, is answered 400
  \<^verbatim>\<open>Invalid IdP response\<close>, rejects its promise and makes no request to the token
  endpoint.
\<close>

theorem callback_replay_rejected:
  assumes "reachable c"
    and "sessionStore c st = Some v"
    and "query_state req1 = JStr st" and "cookie_session_state req1 = JStr st"
    and "truthy (query_code req1)"
    and "query_state req2 = JStr st"
  shows "\<exists>c1 pr.
           callback_begin p c req1 = (c1, pr)
           \<and> (\<forall>code_text. to_string (query_code req1) = Inr code_text \<longrightarrow>
                  (\<exists>url bdy. pr = AwaitFetch url bdy))
           \<and> (\<forall>m. to_string (query_code req1) = Inl m \<longrightarrow>
                  (\<exists>effs. pr = Replied (Send 500 (JStr m)) effs))
           \<and> sessionStore c1 st = None
           \<and> callback q fetch c1 req2 = invalid_idp_response q c1
           \<and> fst (snd (callback q fetch c1 req2)) = Send 400 (JStr ''Invalid IdP response'')
           \<and> (\<forall>u b. Fetch u b \<notin> set (snd (snd (callback q fetch c1 req2))))
           \<and> (\<forall>fr. callback q fetch (fst (callback_end p c1 fr)) req2
                       = invalid_idp_response q (fst (callback_end p c1 fr))
                     \<and> fst (snd (callback q fetch (fst (callback_end p c1 fr)) req2))
                       = Send 400 (JStr ''Invalid IdP response'')
                     \<and> (\<forall>u b. Fetch u b
                           \<notin> set (snd (snd (callback q fetch (fst (callback_end p c1 fr)) req2)))))"
proof -
  from assms(1) have "store_inv c" by (rule reachable_store_inv)
  with assms(2) have iss: "issued_state st" by (auto simp: store_inv_def)
  then have inh: "map_of Object_prototype st = None" and ne: "st \<noteq> []"
    by (auto dest: issued_state_not_inherited)
  let ?d = "c\<lparr>sessionStore := obj_delete (sessionStore c) st\<rparr>"
  obtain c1 pr where b: "callback_begin p c req1 = (c1, pr)"
    by (cases "callback_begin p c req1")
  have get: "obj_get (sessionStore c) st = JStr v"
    using assms(2) by (simp add: obj_get_def)
  have ok: "c1 = ?d \<and> (\<exists>url bdy. pr = AwaitFetch url bdy)"
    if "to_string (query_code req1) = Inr code_text" for code_text
    using b that assms(3-5) ne get by (auto simp: callback_begin_def Let_def)
  have thrown: "c1 = fst (caught p ?d m) \<and> (\<exists>effs. pr = Replied (Send 500 (JStr m)) effs)"
    if "to_string (query_code req1) = Inl m" for m
    using b that assms(3-5) ne get caught_reply [of p ?d m]
    by (auto simp: callback_begin_def Let_def case_prod_beta)
  have gone: "sessionStore c1 st = None"
  proof (cases "to_string (query_code req1)")
    case (Inl m)
    with thrown have "c1 = fst (caught p ?d m)" by simp
    then show ?thesis by (simp add: sessionStore_caught obj_delete_def)
  next
    case (Inr code_text)
    with ok have "c1 = ?d" by simp
    then show ?thesis by (simp add: obj_delete_def)
  qed
  have reply: "fst (snd (invalid_idp_response q c2)) = Send 400 (JStr ''Invalid IdP response'')" for c2
    by (simp add: invalid_idp_response_def Let_def case_prod_beta)
  have rejected: "callback q fetch c2 req2 = invalid_idp_response q c2
      \<and> fst (snd (callback q fetch c2 req2)) = Send 400 (JStr ''Invalid IdP response'')
      \<and> (\<forall>u b. Fetch u b \<notin> set (snd (snd (callback q fetch c2 req2))))"
    if "sessionStore c2 st = None" for c2
  proof -
    from that inh assms(6) have "callback q fetch c2 req2 = invalid_idp_response q c2"
      by (rule callback_unknown_state)
    with reply [of c2] invalid_idp_response_no_fetch [of _ _ q c2] show ?thesis by simp
  qed
  have after: "sessionStore (fst (callback_end p c1 fr)) st = None" for fr
    using gone by (simp only: sessionStore_callback_end)
  from b ok thrown gone rejected [OF gone] rejected [OF after] show ?thesis by blast
qed

text \<open>
  The theorem on the example client, after its \<^verbatim>\<open>/auth\<close> request has stored the state.
\<close>

theorem callback_replay_rejected_witness:
  "\<exists>c1 url bdy.
     callback_begin 0 example_after_auth
       (callback_request (JStr example_state) (JStr ''code'') (JStr example_state))
     = (c1, AwaitFetch url bdy)
     \<and> sessionStore c1 example_state = None
     \<and> callback 0 (refusing JNull) c1
          (callback_request (JStr example_state) (JStr ''code'') (JStr example_state))
       = invalid_idp_response 0 c1
     \<and> fst (snd (callback 0 (refusing JNull) c1
          (callback_request (JStr example_state) (JStr ''code'') (JStr example_state))))
       = Send 400 (JStr ''Invalid IdP response'')
     \<and> (\<forall>u b. Fetch u b \<notin> set (snd (snd (callback 0 (refusing JNull) c1
          (callback_request (JStr example_state) (JStr ''code'') (JStr example_state))))))
     \<and> (\<forall>fr. callback 0 (refusing JNull) (fst (callback_end 0 c1 fr))
                 (callback_request (JStr example_state) (JStr ''code'') (JStr example_state))
               = invalid_idp_response 0 (fst (callback_end 0 c1 fr))
               \<and> fst (snd (callback 0 (refusing JNull) (fst (callback_end 0 c1 fr))
                    (callback_request (JStr example_state) (JStr ''code'') (JStr example_state))))
                 = Send 400 (JStr ''Invalid IdP response'')
               \<and> (\<forall>u b. Fetch u b \<notin> set (snd (snd (callback 0 (refusing JNull)
                    (fst (callback_end 0 c1 fr))
                    (callback_request (JStr example_state) (JStr ''code'') (JStr example_state)))))))"
proof -
  let ?req = "callback_request (JStr example_state) (JStr ''code'') (JStr example_state)"
  have st: "sessionStore example_after_auth example_state = Some example_verifier"
    by (simp add: example_after_auth_eq)
  have code: "to_string (query_code ?req) = Inr ''code''"
    by (simp add: callback_request_def)
  from callback_replay_rejected [OF reachable_example_after_auth st, of ?req ?req 0 0 "refusing JNull"]
  obtain c1 pr where
    b: "callback_begin 0 example_after_auth ?req = (c1, pr)"
    and a: "\<forall>code_text. to_string (query_code ?req) = Inr code_text \<longrightarrow>
              (\<exists>url bdy. pr = AwaitFetch url bdy)"
    and rest: "sessionStore c1 example_state = None
      \<and> callback 0 (refusing JNull) c1 ?req = invalid_idp_response 0 c1
      \<and> fst (snd (callback 0 (refusing JNull) c1 ?req)) = Send 400 (JStr ''Invalid IdP response'')
      \<and> (\<forall>u b. Fetch u b \<notin> set (snd (snd (callback 0 (refusing JNull) c1 ?req))))
      \<and> (\<forall>fr. callback 0 (refusing JNull) (fst (callback_end 0 c1 fr)) ?req
                 = invalid_idp_response 0 (fst (callback_end 0 c1 fr))
               \<and> fst (snd (callback 0 (refusing JNull) (fst (callback_end 0 c1 fr)) ?req))
                 = Send 400 (JStr ''Invalid IdP response'')
               \<and> (\<forall>u b. Fetch u b \<notin> set (snd (snd (callback 0 (refusing JNull)
                    (fst (callback_end 0 c1 fr)) ?req)))))"
    by (auto simp: callback_request_def)
  from a code obtain url bdy where "pr = AwaitFetch url bdy" by blast
  with b rest show ?thesis by blast
qed

section \<open>Starting a flow\<close>

text \<open>
  Claim C4. When the \<open>server\<close> handle is not null, \<^verbatim>\<open>authorize(scopes, port)\<close> returns
  a rejected promise at once: the client (its scopes, session store, server handle,
  routes and promises) is unchanged and nothing is done to the outside, neither a
  listener bound nor a request made.
\<close>

theorem authorize_rejected_while_running:
  assumes "server c \<noteq> None"
  shows "authorize c scopes_arg port_arg
         = (RejectedPromise ''Pending authorization flow. Close existing session to rerun.'', c, [])"
  using assms by (simp add: authorize_def)

theorem authorize_rejected_while_running_witness:
  "server example_listening \<noteq> None
   \<and> authorize example_listening (JStr ''email'') (Some 8080)
     = (RejectedPromise ''Pending authorization flow. Close existing session to rerun.'',
        example_listening, [])"
proof -
  have "server example_listening \<noteq> None" by (simp add: example_listening_fields)
  then show ?thesis
    using authorize_rejected_while_running [of example_listening "JStr ''email''" "Some 8080"]
    by simp
qed

lemma scopes_settle: "scopes (settle p v c) = scopes c"
  by (simp add: settle_def)

text \<open>
  Claim C7. A call of \<^verbatim>\<open>authorize\<close> that starts a flow (no flow is running) with a
  non-empty scopes string \<open>s\<close> records \<open>s\<close>, the separator (a space) and \<^verbatim>\<open>openid\<close>;
  with the scopes omitted or empty it records \<^verbatim>\<open>openid\<close> alone. The redirect of
  \<^verbatim>\<open>/auth\<close>, on any client with these recorded scopes, carries them URI-encoded as its
  \<^verbatim>\<open>scope\<close> parameter.
\<close>

theorem authorize_records_scopes:
  assumes "server c = None"
  shows "(s \<noteq> [] \<longrightarrow>
            scopes (fst (snd (authorize c (JStr s) port_arg))) = s @ '' '' @ ''openid'')
         \<and> scopes (fst (snd (authorize c (JStr []) port_arg))) = ''openid''
         \<and> scopes (fst (snd (authorize c JUndefined port_arg))) = ''openid''
         \<and> (\<forall>c' sha256 vr sr.
               scopes c' = scopes (fst (snd (authorize c scopes_arg port_arg))) \<longrightarrow>
               (\<exists>rest cookies.
                  snd (auth_handler sha256 vr sr c')
                  = Redirect 302
                      (authUri c' @ ''?client_id='' @ encodeURIComponent (clientId c')
                         @ ''&redirect_uri=''
                         @ encodeURIComponent (address_string c' @ ''/callback'')
                         @ ''&response_type=code''
                         @ ''&scope=''
                         @ encodeURIComponent (scopes (fst (snd (authorize c scopes_arg port_arg))))
                         @ ''&code_challenge='' @ rest)
                      cookies))"
proof -
  have 1: "scopes (fst (snd (authorize c (JStr s) port_arg))) = s @ '' '' @ ''openid''" if "s \<noteq> []"
    using assms that
    by (simp add: authorize_def init_def Let_def scopes_settle SCOPE_SEPARATOR_def DEFAULT_SCOPE_def)
  have 2: "scopes (fst (snd (authorize c (JStr []) port_arg))) = ''openid''"
    using assms by (simp add: authorize_def init_def Let_def scopes_settle DEFAULT_SCOPE_def)
  have 3: "scopes (fst (snd (authorize c JUndefined port_arg))) = ''openid''"
    using assms by (simp add: authorize_def init_def Let_def scopes_settle DEFAULT_SCOPE_def)
  have 4: "\<exists>rest cookies.
             snd (auth_handler sha256 vr sr c')
             = Redirect 302
                 (authUri c' @ ''?client_id='' @ encodeURIComponent (clientId c')
                    @ ''&redirect_uri=''
                    @ encodeURIComponent (address_string c' @ ''/callback'')
                    @ ''&response_type=code''
                    @ ''&scope='' @ encodeURIComponent (scopes c')
                    @ ''&code_challenge='' @ rest)
                 cookies" for c' sha256 vr sr
    by (simp add: auth_handler_def Let_def)
  from 1 2 3 4 show ?thesis by metis
qed

lemma encodeURIComponent_example_scopes:
  "encodeURIComponent ''offline_access email openid'' = ''offline_access%20email%20openid''"
  by (simp add: encodeURIComponent_def uri_unreserved_def hex_digit_def)

text \<open>
  The theorem at \<^verbatim>\<open>authorize('offline_access email')\<close> on a new client, and the redirect
  of \<^verbatim>\<open>/auth\<close> once the listener is bound.
\<close>

theorem authorize_records_scopes_witness:
  "server (constructor example_config) = None
   \<and> scopes example_started = ''offline_access email openid''
   \<and> scopes (fst (snd (authorize (constructor example_config) JUndefined None))) = ''openid''
   \<and> (\<exists>rest cookies.
         snd (auth_handler example_digest example_rnd example_rnd example_listening)
         = Redirect 302
             (''https://idp.example/authorize?client_id=cli''
                @ ''&redirect_uri=http%3A%2F%2Flocalhost%3A5555%2Fcallback''
                @ ''&response_type=code''
                @ ''&scope=offline_access%20email%20openid''
                @ ''&code_challenge='' @ rest)
             cookies)"
proof -
  have none: "server (constructor example_config) = None" by (simp add: constructor_def)
  note inst = authorize_records_scopes [OF none, of "''offline_access email''" None
      "JStr ''offline_access email''"]
  have 1: "scopes example_started = ''offline_access email openid''"
    using inst by (simp add: example_started_def)
  have 2: "scopes (fst (snd (authorize (constructor example_config) JUndefined None))) = ''openid''"
    using inst by simp
  have "scopes example_listening
        = scopes (fst (snd (authorize (constructor example_config)
                              (JStr ''offline_access email'') None)))"
    by (simp add: example_listening_eq example_started_def)
  with inst obtain rest cookies where
    "snd (auth_handler example_digest example_rnd example_rnd example_listening)
     = Redirect 302
         (authUri example_listening @ ''?client_id='' @ encodeURIComponent (clientId example_listening)
            @ ''&redirect_uri=''
            @ encodeURIComponent (address_string example_listening @ ''/callback'')
            @ ''&response_type=code''
            @ ''&scope=''
            @ encodeURIComponent (scopes (fst (snd (authorize (constructor example_config)
                                     (JStr ''offline_access email'') None))))
            @ ''&code_challenge='' @ rest)
         cookies"
    by blast
  moreover have "encodeURIComponent (address_string example_listening @ ''/callback'')
                 = ''http%3A%2F%2Flocalhost%3A5555%2Fcallback''"
    by (simp add: address_string_def example_listening_fields encodeURIComponent_def
        uri_unreserved_def hex_digit_def)
  moreover have "encodeURIComponent (clientId example_listening) = ''cli''"
    by (simp add: example_listening_fields encodeURIComponent_def uri_unreserved_def)
  moreover have "scopes (fst (snd (authorize (constructor example_config)
                                     (JStr ''offline_access email'') None)))
                 = ''offline_access email openid''"
    using 1 by (simp add: example_started_def)
  ultimately have
    "snd (auth_handler example_digest example_rnd example_rnd example_listening)
     = Redirect 302
         (''https://idp.example/authorize?client_id=cli''
            @ ''&redirect_uri=http%3A%2F%2Flocalhost%3A5555%2Fcallback''
            @ ''&response_type=code''
            @ ''&scope=offline_access%20email%20openid''
            @ ''&code_challenge='' @ rest)
         cookies"
    by (simp add: example_listening_fields encodeURIComponent_example_scopes)
  with none 1 2 show ?thesis by blast
qed

section \<open>The callback handler and \<^verbatim>\<open>close()\<close>\<close>

lemma server_close: "server (fst (close c)) = None"
  by (simp add: close_def split: option.splits)

lemma promises_close: "promises (fst (close c)) = promises c"
  by (simp add: close_def split: option.splits)

lemma scopes_close: "scopes (fst (close c)) = scopes c"
  by (simp add: close_def split: option.splits)

lemma close_effect: "server c = Some h \<Longrightarrow> snd (close c) = [ServerClose h]"
  by (simp add: close_def)

lemma close_idempotent: "close (fst (close c)) = (fst (close c), [])"
  by (simp add: close_def split: option.splits)

lemma close_unbound: "server c = None \<Longrightarrow> close c = (c, [])"
  by (simp add: close_def)

lemma server_settle: "server (settle p v c) = server c"
  by (simp add: settle_def)

lemma caught_closes:
  "server (fst (caught p c m)) = None
   \<and> (server c = Some h \<longrightarrow> snd (snd (caught p c m)) = [ServerClose h])"
  by (simp add: caught_def Let_def case_prod_beta server_close close_effect server_settle)

lemma invalid_idp_response_closes:
  "server (fst (invalid_idp_response p c)) = None
   \<and> (server c = Some h \<longrightarrow> snd (snd (invalid_idp_response p c)) = [ServerClose h])"
  by (simp add: invalid_idp_response_def Let_def case_prod_beta server_close close_effect server_settle)

text \<open>
  The second part of the handler ends with \<^verbatim>\<open>close()\<close> in every case but one: the
  token endpoint answers with a status other than 200 and a body whose \<^verbatim>\<open>error\<close> member
  is sent to the browser and then cannot be converted to the message of an error.
\<close>

lemma callback_end_closes_or_throws:
  "(server (fst (callback_end p c fr)) = None
    \<and> (\<forall>h. server c = Some h \<longrightarrow> snd (snd (callback_end p c fr)) = [ServerClose h]))
   \<or> (\<exists>status json e m.
         fr = HttpResponse status (Json json) \<and> status \<noteq> 200
         \<and> get_member json ''error'' = Inr e \<and> send_refused status e = None
         \<and> error_message e = Inl m
         \<and> callback_end p c fr
           = (c, Send status e, [Uncaught ''Cannot set headers after they are sent to the client'']))"
proof (cases fr)
  case (NetworkError m)
  then show ?thesis using caught_closes [of p c m] by (simp add: callback_end_def)
next
  case (HttpResponse status b)
  show ?thesis
  proof (cases b)
    case (NotJson m)
    with HttpResponse show ?thesis using caught_closes [of p c m] by (simp add: callback_end_def)
  next
    case (Json json)
    show ?thesis
    proof (cases "status = 200")
      case True
      with HttpResponse Json show ?thesis
        by (simp add: callback_end_def Let_def case_prod_beta server_close close_effect
            server_settle)
    next
      case False
      show ?thesis
      proof (cases "get_member json ''error''")
        case (Inl m)
        with HttpResponse Json False show ?thesis
          using caught_closes [of p c m] by (simp add: callback_end_def)
      next
        case (Inr e)
        show ?thesis
        proof (cases "send_refused status e")
          case (Some m)
          with HttpResponse Json False Inr show ?thesis
            using caught_closes [of p c m] by (simp add: callback_end_def)
        next
          case None
          show ?thesis
          proof (cases "error_message e")
            case (Inl m)
            with HttpResponse Json False Inr None show ?thesis
              by (simp add: callback_end_def)
          next
            case msg: (Inr msg)
            with HttpResponse Json False Inr None show ?thesis
              by (simp add: callback_end_def Let_def case_prod_beta server_close close_effect
                  server_settle)
          qed
        qed
      qed
    qed
  qed
qed

text \<open>The first part ends with \<^verbatim>\<open>close()\<close> whenever it finishes the request.\<close>

lemma callback_begin_closes:
  assumes "callback_begin p c req = (c1, Replied r effs)"
  shows "server c1 = None \<and> (\<forall>h. server c = Some h \<longrightarrow> effs = [ServerClose h])"
  using assms
  by (auto simp: callback_begin_def Let_def case_prod_beta caught_def invalid_idp_response_def
      server_close close_effect server_settle split: sum.splits if_splits)

lemma encodeURIComponent_example_verifier:
  "encodeURIComponent example_verifier = example_verifier"
  by (simp add: encodeURIComponent_def example_verifier_def uri_unreserved_def)

text \<open>
  Claim C8, on the example client with its listener bound and the state stored, at a
  valid \<^verbatim>\<open>/callback\<close> request whose token request is answered with status 400 and the
  body \<^verbatim>\<open>{"error": {"toString": 1}}\<close>. The handler sends the 400 reply with that
  member; \<^verbatim>\<open>new Error(json.error)\<close> then throws, since the member cannot be converted
  to a string; in the \<^verbatim>\<open>catch\<close> block \<^verbatim>\<open>res.send\<close> throws again, because the reply has
  been sent. The exception leaves the handler before \<^verbatim>\<open>reject\<close> and \<^verbatim>\<open>this.close()\<close>:
  the server handle is still set, no listener was closed, and the promise is pending.
\<close>

theorem callback_leaves_listener_bound:
  "server example_after_auth = Some 5555
   \<and> promises example_after_auth = [Pending]
   \<and> server (fst (callback 0
        (refusing (JObject [(''error'', JObject [(''toString'', JNum True ''1'' 1)])]))
        example_after_auth
        (callback_request (JStr example_state) (JStr ''code'') (JStr example_state))))
     = Some 5555
   \<and> promises (fst (callback 0
        (refusing (JObject [(''error'', JObject [(''toString'', JNum True ''1'' 1)])]))
        example_after_auth
        (callback_request (JStr example_state) (JStr ''code'') (JStr example_state))))
     = [Pending]
   \<and> snd (callback 0
        (refusing (JObject [(''error'', JObject [(''toString'', JNum True ''1'' 1)])]))
        example_after_auth
        (callback_request (JStr example_state) (JStr ''code'') (JStr example_state)))
     = (Send 400 (JObject [(''toString'', JNum True ''1'' 1)]),
        [Fetch ''https://idp.example/token''
           (''grant_type=authorization_code&client_id=cli&code=code&code_verifier=''
            @ example_verifier
            @ ''&redirect_uri=http%3A%2F%2Flocalhost%3A5555%2Fcallback''),
         Uncaught ''Cannot set headers after they are sent to the client''])"
proof -
  let ?json = "JObject [(''error'', JObject [(''toString'', JNum True ''1'' 1)])]"
  let ?req = "callback_request (JStr example_state) (JStr ''code'') (JStr example_state)"
  let ?body = "''grant_type=authorization_code&client_id=cli&code=code&code_verifier=''
            @ example_verifier
            @ ''&redirect_uri=http%3A%2F%2Flocalhost%3A5555%2Fcallback''"
  let ?c1 = "example_after_auth\<lparr>sessionStore := obj_delete (sessionStore example_after_auth) example_state\<rparr>"
  have ne: "example_state \<noteq> []" by (simp add: example_state_def)
  have enc: "encodeURIComponent ''http://localhost:5555/callback''
             = ''http%3A%2F%2Flocalhost%3A5555%2Fcallback''"
    "encodeURIComponent ''cli'' = ''cli''" "encodeURIComponent ''code'' = ''code''"
    by (simp_all add: encodeURIComponent_def uri_unreserved_def hex_digit_def)
  have f: "server example_after_auth = Some 5555" "promises example_after_auth = [Pending]"
    "tokenUri example_after_auth = ''https://idp.example/token''"
    "clientId example_after_auth = ''cli''" "clientSecret example_after_auth = None"
    "serverAddress example_after_auth = Some ''http://localhost:5555''"
    "sessionStore example_after_auth example_state = Some example_verifier"
    by (simp_all add: example_after_auth_eq example_listening_fields)
  have b: "callback_begin 0 example_after_auth ?req
           = (?c1, AwaitFetch ''https://idp.example/token'' ?body)"
    using ne
    by (simp add: callback_begin_def callback_request_def Let_def obj_get_def f secret_param_def
        address_string_def enc encodeURIComponent_example_verifier)
  have e: "callback_end 0 ?c1 (HttpResponse 400 (Json ?json))
           = (?c1, Send 400 (JObject [(''toString'', JNum True ''1'' 1)]),
              [Uncaught ''Cannot set headers after they are sent to the client''])"
    by (simp add: callback_end_def get_member_def send_refused_def error_message_def)
  have "callback 0 (refusing ?json) example_after_auth ?req
        = (?c1, Send 400 (JObject [(''toString'', JNum True ''1'' 1)]),
           [Fetch ''https://idp.example/token'' ?body,
            Uncaught ''Cannot set headers after they are sent to the client''])"
    by (simp only: callback_def b e refusing_def prod.case progress.case Let_def)
  then show ?thesis using f by simp
qed

section \<open>The token client\<close>

lemma refresh_effects:
  "snd (refresh c t fetch)
   = [Fetch (tokenUri c)
        (''grant_type=refresh_token'' @ ''&refresh_token='' @ encodeURIComponent t
           @ ''&client_id='' @ encodeURIComponent (clientId c) @ secret_param c)]"
  by (simp add: refresh_def Let_def)

lemma revoke_effects:
  "snd (revoke c t ty fetch)
   = [Fetch (revokeUri c)
        (''token='' @ encodeURIComponent t @ ''&token_type_hint='' @ encodeURIComponent ty
           @ ''&client_id='' @ encodeURIComponent (clientId c) @ secret_param c)]"
  by (simp add: revoke_def Let_def)

text \<open>
  Claim C5. \<^verbatim>\<open>revokeAndGetLogoutUrl(refreshToken)\<close> calls \<^verbatim>\<open>refresh(refreshToken)\<close>
  first. When that fails, the function fails with the same error and its only request
  is the one of \<^verbatim>\<open>refresh\<close>, to the token endpoint: \<^verbatim>\<open>revoke\<close> is not called. When it
  succeeds, \<^verbatim>\<open>revoke(refreshToken, 'refresh_token')\<close> is called next, and when that
  succeeds too and the refresh response has the string \<open>z\<close> as its \<^verbatim>\<open>id_token\<close>, the
  result is exactly the logout URI followed by \<^verbatim>\<open>?id_token_hint=\<close> and \<open>z\<close>.
\<close>

theorem revokeAndGetLogoutUrl_refresh_then_revoke:
  "(\<forall>resp z. fst (refresh c t fetch) = Inr resp
        \<and> fst (revoke c t ''refresh_token'' fetch) = Inr ()
        \<and> get_member resp ''id_token'' = Inr (JStr z) \<longrightarrow>
        revokeAndGetLogoutUrl c t fetch
        = (Inr (logoutUri c @ ''?id_token_hint='' @ z),
           snd (refresh c t fetch) @ snd (revoke c t ''refresh_token'' fetch)))
   \<and> (\<forall>resp. fst (refresh c t fetch) = Inr resp \<longrightarrow>
        snd (revokeAndGetLogoutUrl c t fetch)
        = snd (refresh c t fetch) @ snd (revoke c t ''refresh_token'' fetch))
   \<and> (\<forall>m. fst (refresh c t fetch) = Inl m \<longrightarrow>
        revokeAndGetLogoutUrl c t fetch
        = (Inl m,
           [Fetch (tokenUri c)
              (''grant_type=refresh_token'' @ ''&refresh_token='' @ encodeURIComponent t
                 @ ''&client_id='' @ encodeURIComponent (clientId c) @ secret_param c)]))
   \<and> snd (revoke c t ''refresh_token'' fetch)
     = [Fetch (revokeUri c)
          (''token='' @ encodeURIComponent t @ ''&token_type_hint=refresh_token''
             @ ''&client_id='' @ encodeURIComponent (clientId c) @ secret_param c)]"
proof -
  have enc: "encodeURIComponent ''refresh_token'' = ''refresh_token''"
    by (simp add: encodeURIComponent_def uri_unreserved_def)
  have 1: "revokeAndGetLogoutUrl c t fetch
           = (Inr (logoutUri c @ ''?id_token_hint='' @ z),
              snd (refresh c t fetch) @ snd (revoke c t ''refresh_token'' fetch))"
    if "fst (refresh c t fetch) = Inr resp" "fst (revoke c t ''refresh_token'' fetch) = Inr ()"
      "get_member resp ''id_token'' = Inr (JStr z)" for resp z
    using that
    by (cases "refresh c t fetch"; cases "revoke c t ''refresh_token'' fetch")
      (simp add: revokeAndGetLogoutUrl_def)
  have 2: "snd (revokeAndGetLogoutUrl c t fetch)
           = snd (refresh c t fetch) @ snd (revoke c t ''refresh_token'' fetch)"
    if "fst (refresh c t fetch) = Inr resp" for resp
    using that
    by (cases "refresh c t fetch"; cases "revoke c t ''refresh_token'' fetch")
      (simp add: revokeAndGetLogoutUrl_def split: sum.splits)
  have 3: "revokeAndGetLogoutUrl c t fetch
           = (Inl m,
              [Fetch (tokenUri c)
                 (''grant_type=refresh_token'' @ ''&refresh_token='' @ encodeURIComponent t
                    @ ''&client_id='' @ encodeURIComponent (clientId c) @ secret_param c)])"
    if "fst (refresh c t fetch) = Inl m" for m
    using that refresh_effects [of c t fetch]
    by (cases "refresh c t fetch") (simp add: revokeAndGetLogoutUrl_def)
  have 4: "snd (revoke c t ''refresh_token'' fetch)
           = [Fetch (revokeUri c)
                (''token='' @ encodeURIComponent t @ ''&token_type_hint=refresh_token''
                   @ ''&client_id='' @ encodeURIComponent (clientId c) @ secret_param c)]"
    by (simp add: revoke_effects enc)
  from 1 2 3 4 show ?thesis by blast
qed

lemma refresh_example_ok:
  "refresh example_listening ''tok'' (stub example_listening (JObject [(''id_token'', JStr ''Z'')]) 200)
   = (Inr (JObject [(''id_token'', JStr ''Z'')]),
      [Fetch ''https://idp.example/token''
         ''grant_type=refresh_token&refresh_token=tok&client_id=cli''])"
  by (simp add: refresh_def stub_def Let_def example_listening_fields secret_param_def
      encodeURIComponent_def uri_unreserved_def)

lemma revoke_example_ok:
  "revoke example_listening ''tok'' ''refresh_token''
     (stub example_listening (JObject [(''id_token'', JStr ''Z'')]) 200)
   = (Inr (),
      [Fetch ''https://idp.example/revoke''
         ''token=tok&token_type_hint=refresh_token&client_id=cli''])"
  by (simp add: revoke_def stub_def Let_def example_listening_fields secret_param_def
      encodeURIComponent_def uri_unreserved_def)

lemma refresh_example_refused:
  "refresh example_listening ''tok'' (refusing (JObject [(''error'', JStr ''invalid_grant'')]))
   = (Inl ''invalid_grant'',
      [Fetch ''https://idp.example/token''
         ''grant_type=refresh_token&refresh_token=tok&client_id=cli''])"
  by (simp add: refresh_def refusing_def Let_def example_listening_fields secret_param_def
      encodeURIComponent_def uri_unreserved_def upstream_error_def get_member_def error_message_def
      js_or_def)

text \<open>
  The theorem against stubs: the token endpoint returns \<^verbatim>\<open>{id_token: "Z"}\<close> with status
  200 and the revocation endpoint returns 200; and against a token endpoint that returns
  400 with \<^verbatim>\<open>{error: "invalid_grant"}\<close>.
\<close>

theorem revokeAndGetLogoutUrl_refresh_then_revoke_witness:
  "revokeAndGetLogoutUrl example_listening ''tok''
     (stub example_listening (JObject [(''id_token'', JStr ''Z'')]) 200)
   = (Inr ''https://idp.example/logout?id_token_hint=Z'',
      [Fetch ''https://idp.example/token''
         ''grant_type=refresh_token&refresh_token=tok&client_id=cli'',
       Fetch ''https://idp.example/revoke''
         ''token=tok&token_type_hint=refresh_token&client_id=cli''])
   \<and> revokeAndGetLogoutUrl example_listening ''tok''
       (refusing (JObject [(''error'', JStr ''invalid_grant'')]))
     = (Inl ''invalid_grant'',
        [Fetch ''https://idp.example/token''
           ''grant_type=refresh_token&refresh_token=tok&client_id=cli''])"
proof -
  have id: "get_member (JObject [(''id_token'', JStr ''Z'')]) ''id_token'' = Inr (JStr ''Z'')"
    by (simp add: get_member_def)
  have a: "revokeAndGetLogoutUrl example_listening ''tok''
             (stub example_listening (JObject [(''id_token'', JStr ''Z'')]) 200)
           = (Inr ''https://idp.example/logout?id_token_hint=Z'',
              [Fetch ''https://idp.example/token''
                 ''grant_type=refresh_token&refresh_token=tok&client_id=cli'',
               Fetch ''https://idp.example/revoke''
                 ''token=tok&token_type_hint=refresh_token&client_id=cli''])"
    using revokeAndGetLogoutUrl_refresh_then_revoke [of example_listening "''tok''"
        "stub example_listening (JObject [(''id_token'', JStr ''Z'')]) 200"] id
    by (simp add: refresh_example_ok revoke_example_ok example_listening_fields)
  have b: "revokeAndGetLogoutUrl example_listening ''tok''
             (refusing (JObject [(''error'', JStr ''invalid_grant'')]))
           = (Inl ''invalid_grant'',
              [Fetch ''https://idp.example/token''
                 ''grant_type=refresh_token&refresh_token=tok&client_id=cli''])"
    using revokeAndGetLogoutUrl_refresh_then_revoke [of example_listening "''tok''"
        "refusing (JObject [(''error'', JStr ''invalid_grant'')])"]
    by (simp add: refresh_example_refused example_listening_fields secret_param_def
        encodeURIComponent_def uri_unreserved_def)
  from a b show ?thesis by simp
qed

text \<open>
  What \<^verbatim>\<open>refresh\<close> does with a response whose status is not 200: it fails, and the
  message is the \<^verbatim>\<open>error_description\<close> of the body when that is a non-empty string,
  else its \<^verbatim>\<open>error\<close> when that is one.
\<close>

lemma refresh_fails_on_other_status:
  assumes "fetch (tokenUri c)
             (''grant_type=refresh_token'' @ ''&refresh_token='' @ encodeURIComponent t
                @ ''&client_id='' @ encodeURIComponent (clientId c) @ secret_param c)
           = HttpResponse status b"
    and "status \<noteq> 200"
  shows "\<exists>m. fst (refresh c t fetch) = Inl m"
  using assms by (simp add: refresh_def Let_def split: body.splits)

lemma upstream_error_description:
  "d \<noteq> [] \<Longrightarrow> map_of fs ''error_description'' = Some (JStr d)
   \<Longrightarrow> upstream_error (JObject fs) = d"
  by (simp add: upstream_error_def get_member_def error_message_def)

lemma upstream_error_error:
  "e \<noteq> [] \<Longrightarrow> map_of fs ''error_description'' = None \<Longrightarrow> map_of fs ''error'' = Some (JStr e)
   \<Longrightarrow> upstream_error (JObject fs) = e"
  by (simp add: upstream_error_def get_member_def error_message_def js_or_def)

text \<open>
  The code exchange fails on such a response too: the promise of the handler is rejected,
  unless the exception of the conversion leaves the handler first.
\<close>

lemma callback_end_rejects_on_other_status:
  assumes "status \<noteq> 200" and "p < length (promises c)" and "promises c ! p = Pending"
  shows "(\<exists>m. promises (fst (callback_end p c (HttpResponse status b))) ! p = Rejected m)
         \<or> (\<exists>m. snd (snd (callback_end p c (HttpResponse status b))) = [Uncaught m])"
  using assms
  by (cases b)
    (auto simp: callback_end_def caught_def Let_def case_prod_beta promises_close settle_def
      split: sum.splits option.splits)

text \<open>
  Claim C6, at a response of the token endpoint with status 400 and body
  \<^verbatim>\<open>{error: "invalid_grant", error_description: "Code expired"}\<close>. The code exchange of
  the \<^verbatim>\<open>/callback\<close> handler rejects the promise with the message \<^verbatim>\<open>invalid_grant\<close> and
  sends that to the browser: it reads \<^verbatim>\<open>json.error\<close> only. \<^verbatim>\<open>refresh\<close>, given the
  same response, fails with \<^verbatim>\<open>Code expired\<close>; given \<^verbatim>\<open>{error: "invalid_grant"}\<close> it
  fails with \<^verbatim>\<open>invalid_grant\<close>.
\<close>

theorem exchange_drops_error_description:
  "promises (fst (callback 0
       (refusing (JObject [(''error'', JStr ''invalid_grant''),
                           (''error_description'', JStr ''Code expired'')]))
       example_after_auth
       (callback_request (JStr example_state) (JStr ''code'') (JStr example_state))))
   = [Rejected ''invalid_grant'']
   \<and> fst (snd (callback 0
       (refusing (JObject [(''error'', JStr ''invalid_grant''),
                           (''error_description'', JStr ''Code expired'')]))
       example_after_auth
       (callback_request (JStr example_state) (JStr ''code'') (JStr example_state))))
   = Send 400 (JStr ''invalid_grant'')
   \<and> fst (refresh example_after_auth ''tok''
       (refusing (JObject [(''error'', JStr ''invalid_grant''),
                           (''error_description'', JStr ''Code expired'')])))
   = Inl ''Code expired''
   \<and> fst (refresh example_after_auth ''tok'' (refusing (JObject [(''error'', JStr ''invalid_grant'')])))
   = Inl ''invalid_grant''"
proof -
  let ?json = "JObject [(''error'', JStr ''invalid_grant''),
                        (''error_description'', JStr ''Code expired'')]"
  let ?req = "callback_request (JStr example_state) (JStr ''code'') (JStr example_state)"
  have ne: "example_state \<noteq> []" by (simp add: example_state_def)
  have "\<exists>url bdy. callback_begin 0 example_after_auth ?req
          = (example_after_auth\<lparr>sessionStore := obj_delete (sessionStore example_after_auth) example_state\<rparr>,
             AwaitFetch url bdy)"
    using ne by (simp add: callback_begin_def callback_request_def Let_def obj_get_def
        example_after_auth_eq)
  then obtain url bdy where b: "callback_begin 0 example_after_auth ?req
          = (example_after_auth\<lparr>sessionStore := obj_delete (sessionStore example_after_auth) example_state\<rparr>,
             AwaitFetch url bdy)"
    by blast
  have e: "callback_end 0 (example_after_auth\<lparr>sessionStore := m\<rparr>) (HttpResponse 400 (Json ?json))
           = (example_after_auth\<lparr>sessionStore := m, promises := [Rejected ''invalid_grant''],
                server := None\<rparr>,
              Send 400 (JStr ''invalid_grant''), [ServerClose 5555])" for m
    by (simp add: callback_end_def Let_def get_member_def send_refused_def error_message_def
        settle_def close_def example_after_auth_eq example_listening_eq example_started_eq)
  have 1: "callback 0 (refusing ?json) example_after_auth ?req
           = (example_after_auth\<lparr>sessionStore := obj_delete (sessionStore example_after_auth) example_state,
                promises := [Rejected ''invalid_grant''], server := None\<rparr>,
              Send 400 (JStr ''invalid_grant''), [Fetch url bdy, ServerClose 5555])"
    by (simp add: callback_def b e refusing_def)
  have 2: "fst (refresh example_after_auth ''tok'' (refusing ?json)) = Inl ''Code expired''"
    by (simp add: refresh_def refusing_def Let_def upstream_error_description)
  have 3: "fst (refresh example_after_auth ''tok'' (refusing (JObject [(''error'', JStr ''invalid_grant'')])))
           = Inl ''invalid_grant''"
    by (simp add: refresh_def refusing_def Let_def upstream_error_error)
  from 1 2 3 show ?thesis by simp
qed

section \<open>Validation of the callback\<close>

text \<open>
  For a state that is not the name of a member of \<^verbatim>\<open>Object.prototype\<close>, the handler
  goes on to the token request only if state and code are present, the cookie equals
  the state and the session store has an entry for it; otherwise it answers 400, rejects
  its promise and makes no request. \<open>k\<close> is the state as a property key.
\<close>

lemma path_callback_request: "path (callback_request cookie code st) = ''/callback''"
  by (simp add: callback_request_def)

lemma callback_invalid_rejected:
  assumes "to_string (query_state req) = Inr k"
    and "map_of Object_prototype k = None"
    and "\<not> (truthy (query_state req) \<and> truthy (query_code req)
            \<and> strict_eq (cookie_session_state req) (query_state req)
            \<and> sessionStore c k \<noteq> None)"
  shows "callback p fetch c req = invalid_idp_response p c"
  using assms
  by (auto simp: callback_def callback_begin_def obj_get_def case_prod_beta split: option.splits)

lemma callback_unconvertible_state_rejected:
  assumes "to_string (query_state req) = Inl m"
  shows "callback p fetch c req = invalid_idp_response p c"
  using assms by (simp add: callback_def callback_begin_def case_prod_beta)

lemma callback_accepted_conditions:
  assumes "callback_begin p c req = (c1, AwaitFetch url bdy)"
  shows "\<exists>k. to_string (query_state req) = Inr k
           \<and> truthy (query_state req) \<and> truthy (query_code req)
           \<and> strict_eq (cookie_session_state req) (query_state req)
           \<and> (sessionStore c k \<noteq> None \<or> map_of Object_prototype k \<noteq> None)"
  using assms
  by (auto simp: callback_begin_def obj_get_def Let_def case_prod_beta
      split: sum.splits if_splits option.splits)

text \<open>
  Claim C1, at the request \<^verbatim>\<open>GET /callback?code=x&state=constructor\<close> with the cookie
  \<^verbatim>\<open>session_state=constructor\<close>, sent to the example client whose listener is bound and
  whose session store is empty. The state was never issued and the store has no entry
  for it, but \<^verbatim>\<open>this.sessionStore['constructor']\<close> is the function every object
  inherits, so the check \<^verbatim>\<open>typeof ... !== 'undefined'\<close> passes: the handler posts to
  the token endpoint, with the text of that function as the verifier, and the reply is
  the token endpoint's error, not 400 \<^verbatim>\<open>Invalid IdP response\<close>.
\<close>

theorem callback_inherited_state_reaches_token_endpoint:
  "reachable example_listening
   \<and> sessionStore example_listening ''constructor'' = None
   \<and> snd (serve example_digest example_rnd example_rnd
        (refusing (JObject [(''error'', JStr ''invalid_grant'')]))
        NewConnection example_listening
        (callback_request (JStr ''constructor'') (JStr ''x'') (JStr ''constructor'')))
     = (Send 400 (JStr ''invalid_grant''),
        [Fetch ''https://idp.example/token''
           (''grant_type=authorization_code&client_id=cli&code=x''
            @ ''&code_verifier=function%20Object()%20%7B%20%5Bnative%20code%5D%20%7D''
            @ ''&redirect_uri=http%3A%2F%2Flocalhost%3A5555%2Fcallback''),
         ServerClose 5555])
   \<and> promises (fst (serve example_digest example_rnd example_rnd
        (refusing (JObject [(''error'', JStr ''invalid_grant'')]))
        NewConnection example_listening
        (callback_request (JStr ''constructor'') (JStr ''x'') (JStr ''constructor''))))
     = [Rejected ''invalid_grant'']"
proof -
  let ?req = "callback_request (JStr ''constructor'') (JStr ''x'') (JStr ''constructor'')"
  let ?body = "''grant_type=authorization_code&client_id=cli&code=x''
            @ ''&code_verifier=function%20Object()%20%7B%20%5Bnative%20code%5D%20%7D''
            @ ''&redirect_uri=http%3A%2F%2Flocalhost%3A5555%2Fcallback''"
  have enc1: "encodeURIComponent ''function Object() { [native code] }''
              = ''function%20Object()%20%7B%20%5Bnative%20code%5D%20%7D''"
    by (simp add: encodeURIComponent_def uri_unreserved_def hex_digit_def)
  have enc2: "encodeURIComponent ''http://localhost:5555/callback''
              = ''http%3A%2F%2Flocalhost%3A5555%2Fcallback''"
    by (simp add: encodeURIComponent_def uri_unreserved_def hex_digit_def)
  have enc3: "encodeURIComponent ''cli'' = ''cli''" "encodeURIComponent ''x'' = ''x''"
    by (simp_all add: encodeURIComponent_def uri_unreserved_def)
  have get: "obj_get Map.empty ''constructor'' = JNative ''Object''"
    by (simp add: obj_get_def Object_prototype_def)
  have b: "callback_begin 0 example_listening ?req
           = (example_listening, AwaitFetch ''https://idp.example/token'' ?body)"
    by (simp add: callback_begin_def callback_request_def Let_def get obj_delete_def
        example_listening_eq example_started_eq secret_param_def address_string_def
        enc1 enc2 enc3)
  have e: "callback_end 0 example_listening
             (HttpResponse 400 (Json (JObject [(''error'', JStr ''invalid_grant'')])))
           = (example_listening\<lparr>promises := [Rejected ''invalid_grant''], server := None\<rparr>,
              Send 400 (JStr ''invalid_grant''), [ServerClose 5555])"
    by (simp add: callback_end_def Let_def get_member_def send_refused_def error_message_def
        settle_def close_def example_listening_eq example_started_eq)
  have s: "serve example_digest example_rnd example_rnd
             (refusing (JObject [(''error'', JStr ''invalid_grant'')])) NewConnection
             example_listening ?req
           = (example_listening\<lparr>promises := [Rejected ''invalid_grant''], server := None\<rparr>,
              Send 400 (JStr ''invalid_grant''),
              [Fetch ''https://idp.example/token'' ?body, ServerClose 5555])"
    by (simp add: serve_def example_listening_fields path_callback_request route_matches_def
        toLowerCase_def callback_def b e refusing_def)
  have st: "sessionStore example_listening ''constructor'' = None"
    by (simp add: example_listening_fields)
  from s st reachable_example_listening show ?thesis by simp
qed

section \<open>The session store and the promises across flows\<close>

lemma example_closed_eq: "example_closed = example_after_auth\<lparr>server := None\<rparr>"
  by (simp add: example_closed_def close_def example_after_auth_eq example_listening_fields)

lemma example_restarted_eq:
  "example_restarted
   = example_listening
       \<lparr>scopes := ''openid'',
        app := [(''/auth'', AuthHandler), (''/callback'', CallbackHandler 0),
                (''/auth'', AuthHandler), (''/callback'', CallbackHandler 1)],
        promises := [Pending, Pending]\<rparr>"
  by (simp add: example_restarted_def close_def authorize_def init_def listening_def
      Let_def PORT_def DEFAULT_SCOPE_def HOST_def show_nat_5555 example_listening_eq
      example_started_eq)

text \<open>
  Claim C9 fails: the state stored by the \<^verbatim>\<open>/auth\<close> request of the first flow, which no
  \<^verbatim>\<open>/callback\<close> consumed, is still in the session store, with its verifier, when the
  flow has been abandoned with \<^verbatim>\<open>close()\<close> and \<^verbatim>\<open>authorize()\<close> has started the next flow.
\<close>

theorem session_store_not_cleared_counterexample:
  "sessionStore example_listening example_state = None
   \<and> sessionStore example_after_auth example_state = Some example_verifier
   \<and> fst (authorize (fst (close example_after_auth)) JUndefined None) = NewPromise 1
   \<and> sessionStore (fst (snd (authorize (fst (close example_after_auth)) JUndefined None)))
        example_state
     = Some example_verifier"
proof -
  have "fst (authorize (fst (close example_after_auth)) JUndefined None) = NewPromise 1"
    by (simp add: authorize_def Let_def PORT_def server_close example_after_auth_eq close_def
        example_listening_fields)
  then show ?thesis
    by (simp add: sessionStore_authorize sessionStore_close example_after_auth_eq
        example_listening_fields)
qed

text \<open>
  Claim C9 as amended. The session store is created once, empty, by the constructor,
  and all flows of a client share it: \<^verbatim>\<open>close()\<close> and \<^verbatim>\<open>authorize()\<close> leave it as it is
  (whether \<^verbatim>\<open>authorize\<close> starts a flow or rejects), so every entry that an abandoned
  flow left behind is there, with its verifier, when the next flow begins.
\<close>

theorem session_store_shared_across_flows:
  "sessionStore (constructor cfg) = Map.empty
   \<and> sessionStore (fst (close c)) = sessionStore c
   \<and> sessionStore (fst (snd (authorize c scopes_arg port_arg))) = sessionStore c
   \<and> sessionStore (fst (snd (authorize (fst (close c)) scopes_arg port_arg))) = sessionStore c"
  by (simp add: sessionStore_authorize sessionStore_close constructor_def)

theorem session_store_shared_across_flows_witness:
  "sessionStore (fst (snd (authorize (fst (close example_after_auth)) JUndefined None)))
   = [example_state \<mapsto> example_verifier]"
  using session_store_shared_across_flows [of example_config example_after_auth JUndefined None]
  by (simp add: example_after_auth_eq)

text \<open>
  Which operations settle a promise. \<^verbatim>\<open>authorize\<close> leaves the promises of earlier calls
  as they are, and so do the callback of the listener and the \<^verbatim>\<open>/auth\<close> handler. A run
  of the \<^verbatim>\<open>/callback\<close> handler of a pending promise settles it, unless an exception
  leaves the handler.
\<close>

lemma promises_authorize:
  assumes "p < length (promises c)"
  shows "promises (fst (snd (authorize c scopes_arg port_arg))) ! p = promises c ! p"
  using assms
  by (auto simp: authorize_def init_def Let_def settle_def nth_append split: sum.splits)

lemma promises_listening: "listening c bound = Some (c', effs) \<Longrightarrow> promises c' = promises c"
  by (auto simp: listening_def Let_def split: option.splits)

lemma promises_auth_handler: "promises (fst (auth_handler sha256 vr sr c)) = promises c"
  by (simp add: auth_handler_def Let_def)

lemma settle_pending:
  assumes "p < length (promises c)" and "promises c ! p = Pending" and "v \<noteq> Pending"
  shows "promises (fst (close (settle p v c))) ! p \<noteq> Pending"
  using assms by (simp add: promises_close settle_def)

lemma callback_end_settles_or_throws:
  assumes "p < length (promises c)" and "promises c ! p = Pending"
  shows "promises (fst (callback_end p c fr)) ! p \<noteq> Pending
         \<or> (\<exists>m. snd (snd (callback_end p c fr)) = [Uncaught m])"
  using assms
  by (auto simp: callback_end_def caught_def Let_def case_prod_beta promises_close settle_def
      split: fetch_result.splits body.splits sum.splits option.splits)

lemma callback_settles_or_throws:
  assumes "p < length (promises c)" and "promises c ! p = Pending"
  shows "promises (fst (callback p fetch c req)) ! p \<noteq> Pending
         \<or> (\<exists>m. Uncaught m \<in> set (snd (snd (callback p fetch c req))))"
proof (cases "callback_begin p c req")
  case (Pair c1 pr)
  show ?thesis
  proof (cases pr)
    case (Replied r effs)
    with Pair have "promises c1 ! p \<noteq> Pending"
      using assms
      by (auto simp: callback_begin_def caught_def invalid_idp_response_def Let_def
          case_prod_beta promises_close settle_def split: sum.splits if_splits)
    with Pair Replied show ?thesis by (simp add: callback_def)
  next
    case (AwaitFetch url bdy)
    with Pair have "promises c1 = promises c"
      by (auto simp: callback_begin_def Let_def case_prod_beta split: sum.splits if_splits)
    with assms have "p < length (promises c1)" "promises c1 ! p = Pending" by simp_all
    from callback_end_settles_or_throws [OF this, of "fetch url bdy"] Pair AwaitFetch
    show ?thesis by (auto simp: callback_def case_prod_beta)
  qed
qed

text \<open>
  The slip that the amended claim C10 leaves out: \<^verbatim>\<open>authorize()\<close> calls \<^verbatim>\<open>init\<close> again
  on the same application, so after \<^verbatim>\<open>authorize(); close(); authorize()\<close> a
  \<^verbatim>\<open>/callback\<close> request runs the handler that the first call registered. It settles the
  first promise, and the promise of the second call stays pending.
\<close>

lemma stale_route_settles_first_promise:
  "promises example_restarted = [Pending, Pending]
   \<and> serve example_digest example_rnd example_rnd (refusing JNull) NewConnection example_restarted
        (callback_request JUndefined JUndefined JUndefined)
     = (example_restarted\<lparr>promises := [Rejected ''Invalid IdP response'', Pending],
                            server := None\<rparr>,
        Send 400 (JStr ''Invalid IdP response''), [ServerClose 5555])"
  by (simp add: example_restarted_eq example_listening_fields serve_def route_matches_def
      toLowerCase_def path_callback_request callback_def callback_begin_def callback_request_def
      invalid_idp_response_def settle_def close_def Let_def)

text \<open>
  Claim C10 fails in its last part. The promise of \<^verbatim>\<open>authorize()\<close> is pending when
  \<^verbatim>\<open>close()\<close> is called, after the \<^verbatim>\<open>/auth\<close> request and before any \<^verbatim>\<open>/callback\<close>
  request, and \<^verbatim>\<open>close()\<close> leaves it pending. The browser then sends its \<^verbatim>\<open>/callback\<close>
  request on the connection it has kept alive, which \<^verbatim>\<open>server.close()\<close> has left open:
  the handler runs, exchanges the code, and resolves the promise with the token
  response.
\<close>

theorem abandoned_promise_settles_counterexample:
  "promises example_after_auth = [Pending]
   \<and> example_closed = fst (close example_after_auth)
   \<and> server example_closed = None
   \<and> promises example_closed = [Pending]
   \<and> promises (fst (serve example_digest example_rnd example_rnd
        (stub example_closed (JObject [(''id_token'', JStr ''X'')]) 200) KeptAlive example_closed
        (callback_request (JStr example_state) (JStr ''code'') (JStr example_state))))
     = [Resolved (JObject [(''id_token'', JStr ''X'')])]"
proof -
  let ?req = "callback_request (JStr example_state) (JStr ''code'') (JStr example_state)"
  let ?json = "JObject [(''id_token'', JStr ''X'')]"
  let ?c1 = "example_closed\<lparr>sessionStore := obj_delete (sessionStore example_closed) example_state\<rparr>"
  have ne: "example_state \<noteq> []" by (simp add: example_state_def)
  have f: "server example_closed = None" "promises example_closed = [Pending]"
    "tokenUri example_closed = ''https://idp.example/token''"
    "sessionStore example_closed example_state = Some example_verifier"
    "app example_closed = [(''/auth'', AuthHandler), (''/callback'', CallbackHandler 0)]"
    by (simp_all add: example_closed_eq example_after_auth_eq example_listening_fields)
  have "\<exists>bdy. callback_begin 0 example_closed ?req
          = (?c1, AwaitFetch ''https://idp.example/token'' bdy)"
    using ne by (simp add: callback_begin_def callback_request_def Let_def obj_get_def f)
  then obtain bdy where
    b: "callback_begin 0 example_closed ?req = (?c1, AwaitFetch ''https://idp.example/token'' bdy)"
    by blast
  have e: "promises (fst (callback_end 0 ?c1 (HttpResponse 200 (Json ?json)))) = [Resolved ?json]"
    by (simp add: callback_end_def Let_def case_prod_beta promises_close settle_def f)
  have "promises (fst (callback 0 (stub example_closed ?json 200) example_closed ?req))
        = [Resolved ?json]"
    using e by (simp add: callback_def b stub_def f case_prod_beta)
  then have "promises (fst (serve example_digest example_rnd example_rnd
        (stub example_closed ?json 200) KeptAlive example_closed ?req)) = [Resolved ?json]"
    by (simp add: serve_def f path_callback_request route_matches_def toLowerCase_def)
  moreover have "promises example_after_auth = [Pending]"
    by (simp add: example_after_auth_eq example_listening_fields)
  ultimately show ?thesis using f by (simp add: example_closed_def)
qed

text \<open>
  Claim C10 as amended. \<^verbatim>\<open>close()\<close> changes the \<open>server\<close> handle only, closing the
  listener if there is one: the promises, the session store and the recorded scopes are
  as before, so a pending promise is still pending when \<^verbatim>\<open>close()\<close> returns. Nor do
  \<^verbatim>\<open>authorize()\<close>, the callback of the listener or the \<^verbatim>\<open>/auth\<close> handler settle it. It
  does settle when its \<^verbatim>\<open>/callback\<close> handler runs afterwards, unless an exception leaves
  that handler.
\<close>

theorem close_changes_server_only:
  "fst (close c) = c\<lparr>server := None\<rparr>
   \<and> promises (fst (close c)) = promises c
   \<and> sessionStore (fst (close c)) = sessionStore c
   \<and> scopes (fst (close c)) = scopes c
   \<and> (\<forall>h. server c = Some h \<longrightarrow> snd (close c) = [ServerClose h])
   \<and> (server c = None \<longrightarrow> snd (close c) = [])
   \<and> (\<forall>p. p < length (promises c) \<and> promises c ! p = Pending \<longrightarrow>
          promises (fst (close c)) ! p = Pending
          \<and> promises (fst (snd (authorize (fst (close c)) scopes_arg port_arg))) ! p = Pending
          \<and> promises (fst (auth_handler sha256 vr sr (fst (close c)))) ! p = Pending
          \<and> (\<forall>bound c' effs. listening (fst (close c)) bound = Some (c', effs) \<longrightarrow>
                promises c' ! p = Pending)
          \<and> (promises (fst (callback p fetch (fst (close c)) req)) ! p \<noteq> Pending
              \<or> (\<exists>m. Uncaught m \<in> set (snd (snd (callback p fetch (fst (close c)) req))))))"
proof -
  have 1: "fst (close c) = c\<lparr>server := None\<rparr>"
    by (cases "server c") (simp_all add: close_def)
  have 2: "\<forall>h. server c = Some h \<longrightarrow> snd (close c) = [ServerClose h]"
    by (simp add: close_effect)
  have 3: "server c = None \<longrightarrow> snd (close c) = []"
    by (simp add: close_def)
  have 4: "promises (fst (close c)) ! p = Pending
        \<and> promises (fst (snd (authorize (fst (close c)) scopes_arg port_arg))) ! p = Pending
        \<and> promises (fst (auth_handler sha256 vr sr (fst (close c)))) ! p = Pending
        \<and> (\<forall>bound c' effs. listening (fst (close c)) bound = Some (c', effs) \<longrightarrow>
              promises c' ! p = Pending)
        \<and> (promises (fst (callback p fetch (fst (close c)) req)) ! p \<noteq> Pending
            \<or> (\<exists>m. Uncaught m \<in> set (snd (snd (callback p fetch (fst (close c)) req)))))"
    if "p < length (promises c)" "promises c ! p = Pending" for p
  proof -
    from that have len: "p < length (promises (fst (close c)))"
      and pen: "promises (fst (close c)) ! p = Pending"
      by (simp_all add: promises_close)
    from len pen have a: "promises (fst (snd (authorize (fst (close c)) scopes_arg port_arg))) ! p
                          = Pending"
      by (simp add: promises_authorize)
    from pen have h: "promises (fst (auth_handler sha256 vr sr (fst (close c)))) ! p = Pending"
      by (simp add: promises_auth_handler)
    from pen have l: "\<forall>bound c' effs. listening (fst (close c)) bound = Some (c', effs) \<longrightarrow>
                        promises c' ! p = Pending"
      by (auto dest: promises_listening)
    from pen a h l callback_settles_or_throws [OF len pen, of fetch req] show ?thesis
      by blast
  qed
  from 1 2 3 4 show ?thesis
    by (simp add: promises_close sessionStore_close scopes_close)
qed

text \<open>
  The theorem on the example client after its \<^verbatim>\<open>/auth\<close> request: the promise is
  pending before and after \<^verbatim>\<open>close()\<close>, the stored state stays, the listener is closed,
  and a later run of the \<^verbatim>\<open>/callback\<close> handler on a request without state rejects the
  promise.
\<close>

theorem close_changes_server_only_witness:
  "promises example_after_auth ! 0 = Pending
   \<and> promises (fst (close example_after_auth)) ! 0 = Pending
   \<and> sessionStore (fst (close example_after_auth)) example_state = Some example_verifier
   \<and> snd (close example_after_auth) = [ServerClose 5555]
   \<and> promises (fst (callback 0 (refusing JNull) (fst (close example_after_auth))
                       (callback_request JUndefined JUndefined JUndefined))) ! 0
     = Rejected ''Invalid IdP response''"
proof -
  let ?req = "callback_request JUndefined JUndefined JUndefined"
  note inst = close_changes_server_only [of example_after_auth JUndefined None example_digest
      example_rnd example_rnd "refusing JNull" ?req]
  have srv: "server example_after_auth = Some 5555"
    and pr: "promises example_after_auth = [Pending]"
    and st: "sessionStore example_after_auth example_state = Some example_verifier"
    by (simp_all add: example_after_auth_eq example_listening_fields)
  from inst have a: "promises (fst (close example_after_auth)) = promises example_after_auth"
    by blast
  from inst have b: "sessionStore (fst (close example_after_auth)) = sessionStore example_after_auth"
    by blast
  from inst srv have c: "snd (close example_after_auth) = [ServerClose 5555]"
    by blast
  have d: "promises (fst (callback 0 (refusing JNull) (fst (close example_after_auth)) ?req)) ! 0
           = Rejected ''Invalid IdP response''"
    by (simp add: callback_def callback_begin_def callback_request_def invalid_idp_response_def
        Let_def case_prod_beta promises_close settle_def pr)
  show ?thesis
    by (simp only: a b c d pr st nth_Cons_0 simp_thms)
qed

end
